theory Spec2Isabelle
  imports Complex_Main
begin

section \<open>Numbers\<close>

text \<open>
  The program computes with JavaScript numbers. Finite numbers are modelled as exact reals
  (no rounding). Where the code can produce or receive a non-finite value (a division whose
  divisor may be zero, a field-of-view property checked with \<open>Number.isFinite\<close>), the value
  is a \<open>jsnum\<close>. Signed zero is not modelled.

  An exact sine or cosine vanishes at multiples of 90 degrees, where the program's doubles
  give a value of the order of \<open>1e-16\<close>, since \<open>Math.PI\<close> is not \<open>pi\<close>; in the same way
  a frame that is exactly axis-aligned over the reals is off by about \<open>1e-16\<close> in doubles.
  What is stated of the orientation solvers below does not rest on such an exact value: a
  comparison with \<open>VECTOR_EPSILON\<close> comes out the same for 0 and for \<open>1e-32\<close>; the solver
  that fails on the zero vector only is described where its vectors are not zero; and no
  input is claimed on which a solver returns exactly the identity.
\<close>

datatype jsnum = Finite real | PosInfinity | NegInfinity | NaN

fun isFinite :: "jsnum \<Rightarrow> bool" where
  "isFinite (Finite r) = True"
| "isFinite PosInfinity = False"
| "isFinite NegInfinity = False"
| "isFinite NaN = False"

text \<open>The operator \<open>/\<close> on two finite numbers.\<close>

definition js_div :: "real \<Rightarrow> real \<Rightarrow> jsnum" where
  "js_div a b =
     (if b \<noteq> 0 then Finite (a / b)
      else if 0 < a then PosInfinity
      else if a < 0 then NegInfinity
      else NaN)"

text \<open>The operator \<open>%\<close> on finite numbers, \<open>b \<noteq> 0\<close>: the quotient is truncated towards zero.\<close>

definition js_rem :: "real \<Rightarrow> real \<Rightarrow> real" where
  "js_rem a b =
     a - b * real_of_int (if 0 \<le> a / b then \<lfloor>a / b\<rfloor> else \<lceil>a / b\<rceil>)"

text \<open>\<open>CesiumMath.toRadians\<close>: \<open>degrees * (Math.PI / 180.0)\<close>.\<close>

definition toRadians :: "real \<Rightarrow> real" where
  "toRadians degrees = degrees * (pi / 180)"

text \<open>\<open>CesiumMath.EPSILON10\<close>.\<close>

definition EPSILON10 :: real where
  "EPSILON10 = 1 / 10 ^ 10"

section \<open>Vectors, matrices and quaternions of the rendering library\<close>

datatype Cartesian3 = Cartesian3 (vx: real) (vy: real) (vz: real)

datatype Quaternion = Quaternion (qx: real) (qy: real) (qz: real) (qw: real)

text \<open>A 3x3 matrix, held by its three columns (the library stores it column-major).\<close>

datatype Matrix3 = Matrix3 (column0: Cartesian3) (column1: Cartesian3) (column2: Cartesian3)

text \<open>Everything the library throws is a \<open>DeveloperError\<close>; the components throw \<open>Error\<close>
  with a message.\<close>

datatype error = DeveloperError | Error string

definition Quaternion_IDENTITY :: Quaternion where
  "Quaternion_IDENTITY = Quaternion 0 0 0 1"

definition Matrix3_zero :: Matrix3 where
  "Matrix3_zero = Matrix3 (Cartesian3 0 0 0) (Cartesian3 0 0 0) (Cartesian3 0 0 0)"

fun Cartesian3_add :: "Cartesian3 \<Rightarrow> Cartesian3 \<Rightarrow> Cartesian3" where
  "Cartesian3_add (Cartesian3 lx ly lz) (Cartesian3 rx ry rz) =
     Cartesian3 (lx + rx) (ly + ry) (lz + rz)"

fun Cartesian3_negate :: "Cartesian3 \<Rightarrow> Cartesian3" where
  "Cartesian3_negate (Cartesian3 a b c) = Cartesian3 (- a) (- b) (- c)"

fun Cartesian3_multiplyByScalar :: "Cartesian3 \<Rightarrow> real \<Rightarrow> Cartesian3" where
  "Cartesian3_multiplyByScalar (Cartesian3 a b c) s = Cartesian3 (a * s) (b * s) (c * s)"

fun Cartesian3_cross :: "Cartesian3 \<Rightarrow> Cartesian3 \<Rightarrow> Cartesian3" where
  "Cartesian3_cross (Cartesian3 lx ly lz) (Cartesian3 rx ry rz) =
     Cartesian3 (ly * rz - lz * ry) (lz * rx - lx * rz) (lx * ry - ly * rx)"

fun Cartesian3_magnitudeSquared :: "Cartesian3 \<Rightarrow> real" where
  "Cartesian3_magnitudeSquared (Cartesian3 a b c) = a * a + b * b + c * c"

definition Cartesian3_magnitude :: "Cartesian3 \<Rightarrow> real" where
  "Cartesian3_magnitude v = sqrt (Cartesian3_magnitudeSquared v)"

text \<open>
  \<open>Cartesian3.normalize\<close> divides each component by the magnitude and throws a
  \<open>DeveloperError\<close> when a component of the result is not a number; on finite components
  that is exactly the zero vector (0/0).
\<close>

definition Cartesian3_normalize :: "Cartesian3 \<Rightarrow> error + Cartesian3" where
  "Cartesian3_normalize v =
     (let magnitude = Cartesian3_magnitude v in
      if magnitude = 0 then Inl DeveloperError
      else Inr (Cartesian3 (vx v / magnitude) (vy v / magnitude) (vz v / magnitude)))"

fun Matrix3_multiplyByVector :: "Matrix3 \<Rightarrow> Cartesian3 \<Rightarrow> Cartesian3" where
  "Matrix3_multiplyByVector (Matrix3 c0 c1 c2) (Cartesian3 a b c) =
     Cartesian3 (vx c0 * a + vx c1 * b + vx c2 * c)
                (vy c0 * a + vy c1 * b + vy c2 * c)
                (vz c0 * a + vz c1 * b + vz c2 * c)"

fun Matrix3_setColumn :: "Matrix3 \<Rightarrow> nat \<Rightarrow> Cartesian3 \<Rightarrow> Matrix3" where
  "Matrix3_setColumn (Matrix3 c0 c1 c2) i v =
     (if i = 0 then Matrix3 v c1 c2
      else if i = 1 then Matrix3 c0 v c2
      else Matrix3 c0 c1 v)"

text \<open>\<open>Matrix3.fromQuaternion\<close>: the rotation matrix of a quaternion.\<close>

fun Matrix3_fromQuaternion :: "Quaternion \<Rightarrow> Matrix3" where
  "Matrix3_fromQuaternion (Quaternion x y z w) =
     (let x2 = x * x; xy = x * y; xz = x * z; xw = x * w;
          y2 = y * y; yz = y * z; yw = y * w;
          z2 = z * z; zw = z * w; w2 = w * w;
          m00 = x2 - y2 - z2 + w2;
          m01 = 2 * (xy - zw);
          m02 = 2 * (xz + yw);
          m10 = 2 * (xy + zw);
          m11 = - x2 + y2 - z2 + w2;
          m12 = 2 * (yz - xw);
          m20 = 2 * (xz - yw);
          m21 = 2 * (yz + xw);
          m22 = - x2 - y2 + z2 + w2
      in Matrix3 (Cartesian3 m00 m10 m20) (Cartesian3 m01 m11 m21) (Cartesian3 m02 m12 m22))"

text \<open>\<open>Quaternion.fromAxisAngle\<close>. The library normalises the axis first; the one axis passed
  to it here has been normalised by the caller already.\<close>

definition Quaternion_fromAxisAngle :: "Cartesian3 \<Rightarrow> real \<Rightarrow> Quaternion" where
  "Quaternion_fromAxisAngle axis angle =
     (let halfAngle = angle / 2; s = sin halfAngle in
      Quaternion (vx axis * s) (vy axis * s) (vz axis * s) (cos halfAngle))"

text \<open>
  \<open>Quaternion.fromRotationMatrix\<close>. \<open>entry m r c\<close> is the entry of row \<open>r\<close> and column \<open>c\<close>.
  The divisions by \<open>root\<close> are the library's; on a rotation matrix \<open>root\<close> is positive.
\<close>

definition entry :: "Matrix3 \<Rightarrow> nat \<Rightarrow> nat \<Rightarrow> real" where
  "entry m r c =
     (let col = (if c = 0 then column0 m else if c = 1 then column1 m else column2 m)
      in if r = 0 then vx col else if r = 1 then vy col else vz col)"

definition Quaternion_fromRotationMatrix :: "Matrix3 \<Rightarrow> Quaternion" where
  "Quaternion_fromRotationMatrix m =
     (let m00 = entry m 0 0; m11 = entry m 1 1; m22 = entry m 2 2;
          trace = m00 + m11 + m22
      in if 0 < trace then
           (let root = sqrt (trace + 1);
                w = root / 2;
                root' = (1 / 2) / root
            in Quaternion ((entry m 2 1 - entry m 1 2) * root')
                          ((entry m 0 2 - entry m 2 0) * root')
                          ((entry m 1 0 - entry m 0 1) * root')
                          w)
         else
           (let i = (if m22 > m00 \<and> m22 > m11 then 2 else if m11 > m00 then 1 else (0::nat));
                j = (i + 1) mod 3;
                k = (j + 1) mod 3;
                root = sqrt (entry m i i - entry m j j - entry m k k + 1);
                qi = root / 2;
                root' = (1 / 2) / root;
                w = (entry m j k - entry m k j) * root';
                qj = (entry m i j + entry m j i) * root';
                qk = (entry m i k + entry m k i) * root';
                quat = (\<lambda>n. if n = i then qi else if n = j then qj else qk)
            in Quaternion (- quat 0) (- quat 1) (- quat 2) w))"

text \<open>
  \<open>Cartesian3.fromDegrees(lon, lat, height)\<close> on the WGS84 ellipsoid. The library
  normalises the surface normal \<open>n\<close>, which has length 1 as it is built.
\<close>

definition wgs84RadiiSquared :: Cartesian3 where
  "wgs84RadiiSquared =
     Cartesian3 (6378137 * 6378137) (6378137 * 6378137)
                (63567523142451793 / 10 ^ 10 * (63567523142451793 / 10 ^ 10))"

definition Cartesian3_fromDegrees :: "real \<Rightarrow> real \<Rightarrow> real \<Rightarrow> Cartesian3" where
  "Cartesian3_fromDegrees longitude latitude height =
     (let lon = toRadians longitude; lat = toRadians latitude;
          cosLatitude = cos lat;
          n = Cartesian3 (cosLatitude * cos lon) (cosLatitude * sin lon) (sin lat);
          k = Cartesian3 (vx wgs84RadiiSquared * vx n) (vy wgs84RadiiSquared * vy n)
                         (vz wgs84RadiiSquared * vz n);
          gamma = sqrt (vx n * vx k + vy n * vy k + vz n * vz k);
          k' = Cartesian3 (vx k / gamma) (vy k / gamma) (vz k / gamma)
      in Cartesian3_add k' (Cartesian3_multiplyByScalar n height))"

text \<open>
  The rotation part of \<open>Transforms.eastNorthUpToFixedFrame\<close> at a geodetic point, as
  \<open>Matrix4.getMatrix3\<close> extracts it: the columns are the East, North and Up unit vectors of
  the point in the Earth-fixed frame. It depends on latitude and longitude only. The library
  derives it from the Cartesian position of the point; here it is taken from the point's
  latitude and longitude in degrees (the standard ENU rotation). On the polar axis, where
  the position does not determine East and North, the library fixes them by convention; the
  formula gives the frame of the stated longitude there.
\<close>

definition eastNorthUpRotation :: "real \<Rightarrow> real \<Rightarrow> Matrix3" where
  "eastNorthUpRotation longitude latitude =
     (let lon = toRadians longitude; lat = toRadians latitude in
      Matrix3 (Cartesian3 (- sin lon) (cos lon) 0)
              (Cartesian3 (- sin lat * cos lon) (- sin lat * sin lon) (cos lat))
              (Cartesian3 (cos lat * cos lon) (cos lat * sin lon) (sin lat)))"

section \<open>SensorFrustum: the frustum outline\<close>

text \<open>A geodetic point: \<open>hae\<close> is optional.\<close>

record Point =
  lat :: real
  lon :: real
  hae :: "real option"

definition SensorFrustum_normalizedAzimuth :: "real \<Rightarrow> real" where
  "SensorFrustum_normalizedAzimuth azimuth = js_rem (js_rem azimuth 360 + 360) 360"

definition SensorFrustum_origin :: "Point \<Rightarrow> Cartesian3" where
  "SensorFrustum_origin point =
     Cartesian3_fromDegrees (lon point) (lat point) (case hae point of None \<Rightarrow> 0 | Some h \<Rightarrow> h)"

definition SensorFrustum_enuTransform :: "Point \<Rightarrow> Matrix3" where
  "SensorFrustum_enuTransform point = eastNorthUpRotation (lon point) (lat point)"

definition SensorFrustum_localDirection :: "real \<Rightarrow> real \<Rightarrow> Cartesian3" where
  "SensorFrustum_localDirection normalizedAzimuth normalizedElevation =
     (let azimuthRad = toRadians normalizedAzimuth;
          elevationRad = toRadians normalizedElevation
      in Cartesian3 (sin azimuthRad * cos elevationRad)
                    (cos azimuthRad * cos elevationRad)
                    (sin elevationRad))"

text \<open>
  The body of the \<open>try\<close> block up to the three normalised world vectors
  \<open>(right, up, direction)\<close>; \<open>Inl\<close> is an exception thrown inside the block. At an
  elevation of exactly 90 degrees the exact cosine is 0 and the first normalisation throws,
  where the program's doubles have a cosine of about \<open>6e-17\<close> and the block returns a frame.
\<close>

definition SensorFrustum_vectors ::
  "Matrix3 \<Rightarrow> real \<Rightarrow> real \<Rightarrow> error + (Cartesian3 \<times> Cartesian3 \<times> Cartesian3)" where
  "SensorFrustum_vectors enuTransform normalizedAzimuth normalizedElevation =
     (let localDirection = SensorFrustum_localDirection normalizedAzimuth normalizedElevation;
          localUp = Cartesian3 0 0 1
      in case Cartesian3_normalize (Cartesian3_cross localDirection localUp) of
           Inl e \<Rightarrow> Inl e
         | Inr localRight \<Rightarrow>
      (case Cartesian3_normalize (Cartesian3_cross localRight localDirection) of
           Inl e \<Rightarrow> Inl e
         | Inr localUpCorrected \<Rightarrow>
      (case Cartesian3_normalize (Matrix3_multiplyByVector enuTransform localDirection) of
           Inl e \<Rightarrow> Inl e
         | Inr direction \<Rightarrow>
      (case Cartesian3_normalize (Matrix3_multiplyByVector enuTransform localRight) of
           Inl e \<Rightarrow> Inl e
         | Inr right \<Rightarrow>
      (case Cartesian3_normalize (Matrix3_multiplyByVector enuTransform localUpCorrected) of
           Inl e \<Rightarrow> Inl e
         | Inr up \<Rightarrow> Inr (right, up, direction))))))"

definition rotationFromVectors :: "Cartesian3 \<Rightarrow> Cartesian3 \<Rightarrow> Cartesian3 \<Rightarrow> Matrix3" where
  "rotationFromVectors right up direction =
     Matrix3_setColumn
       (Matrix3_setColumn (Matrix3_setColumn Matrix3_zero 0 right) 1 up)
       2 (Cartesian3_negate direction)"

definition SensorFrustum_solve :: "Matrix3 \<Rightarrow> real \<Rightarrow> real \<Rightarrow> error + Quaternion" where
  "SensorFrustum_solve enuTransform normalizedAzimuth normalizedElevation =
     (case SensorFrustum_vectors enuTransform normalizedAzimuth normalizedElevation of
        Inl e \<Rightarrow> Inl e
      | Inr (right, up, direction) \<Rightarrow>
          Inr (Quaternion_fromRotationMatrix (rotationFromVectors right up direction)))"

text \<open>The \<open>orientation\<close> memo: the \<open>catch\<close> returns the identity quaternion.\<close>

definition SensorFrustum_orientation :: "Matrix3 \<Rightarrow> real \<Rightarrow> real \<Rightarrow> Quaternion" where
  "SensorFrustum_orientation enuTransform normalizedAzimuth normalizedElevation =
     (case SensorFrustum_solve enuTransform normalizedAzimuth normalizedElevation of
        Inl e \<Rightarrow> Quaternion_IDENTITY
      | Inr q \<Rightarrow> q)"

text \<open>
  The \<open>outlinePositions\<close> memo. The loop over \<open>relativeAngles\<close> pushes one corner per
  pair; the returned array reads \<open>corners[0..3]\<close>, which the loop has filled.
\<close>

definition relativeAngles :: "real \<Rightarrow> real \<Rightarrow> (real \<times> real) list" where
  "relativeAngles hfov vfov =
     (let hfovRad = toRadians hfov; vfovRad = toRadians vfov;
          halfHFOV = hfovRad / 3; halfVFOV = vfovRad / 3
      in [(- halfHFOV, - halfVFOV), (halfHFOV, - halfVFOV),
          (halfHFOV, halfVFOV), (- halfHFOV, halfVFOV)])"

fun pushCorners ::
  "Cartesian3 \<Rightarrow> Matrix3 \<Rightarrow> real \<Rightarrow> (real \<times> real) list \<Rightarrow> Cartesian3 list \<Rightarrow> Cartesian3 list" where
  "pushCorners origin rot range_m [] corners = corners"
| "pushCorners origin rot range_m ((relativeH, relativeV) # rest) corners =
     (let localCorner = Cartesian3 (tan relativeH * range_m) (tan relativeV * range_m) (- range_m);
          rotatedCorner = Matrix3_multiplyByVector rot localCorner
      in pushCorners origin rot range_m rest (corners @ [Cartesian3_add origin rotatedCorner]))"

definition outlinePositions ::
  "Cartesian3 \<Rightarrow> Quaternion \<Rightarrow> real \<Rightarrow> real \<Rightarrow> real \<Rightarrow> Cartesian3 list" where
  "outlinePositions origin orientation hfov vfov range_m =
     (let rotationMatrixFromOrientation = Matrix3_fromQuaternion orientation;
          corners = pushCorners origin rotationMatrixFromOrientation range_m
                      (relativeAngles hfov vfov) []
      in [origin, corners ! 0, origin, corners ! 1, origin, corners ! 2, origin, corners ! 3,
          corners ! 0, corners ! 1, corners ! 1, corners ! 2,
          corners ! 2, corners ! 3, corners ! 3, corners ! 0])"

text \<open>The reference list of the specification, written out.\<close>

definition spec_corner ::
  "Cartesian3 \<Rightarrow> Quaternion \<Rightarrow> real \<Rightarrow> real \<Rightarrow> real \<Rightarrow> Cartesian3" where
  "spec_corner origin orientation relH relV range_m =
     Cartesian3_add origin
       (Matrix3_multiplyByVector (Matrix3_fromQuaternion orientation)
          (Cartesian3 (tan relH * range_m) (tan relV * range_m) (- range_m)))"

definition spec_outline ::
  "Cartesian3 \<Rightarrow> Quaternion \<Rightarrow> real \<Rightarrow> real \<Rightarrow> real \<Rightarrow> Cartesian3 list" where
  "spec_outline origin orientation hfov vfov range_m =
     (let h = toRadians hfov / 3; v = toRadians vfov / 3;
          corner0 = spec_corner origin orientation (- h) (- v) range_m;
          corner1 = spec_corner origin orientation h (- v) range_m;
          corner2 = spec_corner origin orientation h v range_m;
          corner3 = spec_corner origin orientation (- h) v range_m
      in [origin, corner0, origin, corner1, origin, corner2, origin, corner3]
         @ [corner0, corner1, corner1, corner2, corner2, corner3, corner3, corner0])"

definition SensorFrustum_normalizedElevation :: "real \<Rightarrow> real" where
  "SensorFrustum_normalizedElevation elevation = elevation"

text \<open>
  The component: \<open>None\<close> is "renders nothing", \<open>Some ps\<close> the polyline positions of the
  primitive drawn. The property \<open>range\<close> defaults to 1200; outline colour and width are
  not modelled.
\<close>

definition SensorFrustum ::
  "Point \<Rightarrow> real \<Rightarrow> real \<Rightarrow> real \<Rightarrow> real \<Rightarrow> real option \<Rightarrow> bool \<Rightarrow> Cartesian3 list option" where
  "SensorFrustum point azimuth elevation hfov vfov range_prop isDeviceSelected =
     (let range_m = (case range_prop of None \<Rightarrow> 1200 | Some r \<Rightarrow> r);
          orientation =
            SensorFrustum_orientation (SensorFrustum_enuTransform point)
              (SensorFrustum_normalizedAzimuth azimuth)
              (SensorFrustum_normalizedElevation elevation);
          positions = outlinePositions (SensorFrustum_origin point) orientation hfov vfov range_m
      in if isDeviceSelected then Some positions else None)"

section \<open>FrustumVisualizer: the solid frustum\<close>

text \<open>
  The component's properties \<open>azimuth\<close>, \<open>elevation\<close> and the point's coordinates are taken
  to be finite numbers (reals); \<open>hfov\<close>, \<open>vfov\<close> and \<open>range\<close> may be any JavaScript number.
  Colour and alpha are not modelled.
\<close>

definition js_gt :: "jsnum \<Rightarrow> real \<Rightarrow> bool" where
  "js_gt a b = (case a of Finite r \<Rightarrow> b < r | PosInfinity \<Rightarrow> True | _ \<Rightarrow> False)"

definition js_lt :: "jsnum \<Rightarrow> real \<Rightarrow> bool" where
  "js_lt a b = (case a of Finite r \<Rightarrow> r < b | NegInfinity \<Rightarrow> True | _ \<Rightarrow> False)"

definition isValidAngle :: "jsnum \<Rightarrow> bool" where
  "isValidAngle angle = (isFinite angle \<and> js_gt angle 0 \<and> js_lt angle 180)"

text \<open>\<open>None\<close> is \<open>undefined\<close>.\<close>

definition isValidRange :: "jsnum option \<Rightarrow> bool" where
  "isValidRange r = (case r of None \<Rightarrow> False | Some v \<Rightarrow> isFinite v \<and> js_gt v 0)"

definition VECTOR_EPSILON :: real where
  "VECTOR_EPSILON = EPSILON10"

text \<open>\<open>Inr None\<close> is the \<open>null\<close> the function returns for a vector it refuses.\<close>

definition safeNormalize :: "Cartesian3 \<Rightarrow> error + Cartesian3 option" where
  "safeNormalize v =
     (if Cartesian3_magnitudeSquared v \<le> VECTOR_EPSILON then Inr None
      else case Cartesian3_normalize v of Inl e \<Rightarrow> Inl e | Inr u \<Rightarrow> Inr (Some u))"

record PerspectiveFrustum =
  fov :: real
  aspectRatio :: jsnum
  near :: real
  far :: real

definition FrustumVisualizer_range :: "jsnum option \<Rightarrow> jsnum" where
  "FrustumVisualizer_range range_prop = (case range_prop of None \<Rightarrow> Finite 1000 | Some r \<Rightarrow> r)"

definition FrustumVisualizer_isInputValid :: "jsnum \<Rightarrow> jsnum \<Rightarrow> jsnum \<Rightarrow> real \<Rightarrow> real \<Rightarrow> Point \<Rightarrow> bool" where
  "FrustumVisualizer_isInputValid hfov_deg vfov_deg range_m azimuth elevation point =
     (isValidAngle hfov_deg \<and> isValidAngle vfov_deg \<and> isValidRange (Some range_m)
      \<and> isFinite (Finite azimuth) \<and> isFinite (Finite elevation)
      \<and> isFinite (Finite (lat point)) \<and> isFinite (Finite (lon point)))"

definition FrustumVisualizer_normalizedAzimuth :: "real \<Rightarrow> real" where
  "FrustumVisualizer_normalizedAzimuth azimuth = js_rem (js_rem azimuth 360 + 360) 360"

definition FrustumVisualizer_normalizedElevation :: "real \<Rightarrow> real" where
  "FrustumVisualizer_normalizedElevation elevation = - elevation"

definition FrustumVisualizer_origin :: "Point \<Rightarrow> Cartesian3" where
  "FrustumVisualizer_origin point =
     Cartesian3_fromDegrees (lon point) (lat point) (case hae point of None \<Rightarrow> 0 | Some h \<Rightarrow> h)"

definition FrustumVisualizer_enuTransform :: "Point \<Rightarrow> Matrix3" where
  "FrustumVisualizer_enuTransform point = eastNorthUpRotation (lon point) (lat point)"

definition FrustumVisualizer_localDir :: "real \<Rightarrow> real \<Rightarrow> Cartesian3" where
  "FrustumVisualizer_localDir normalizedAzimuth normalizedElevation =
     (let azimuthRad = toRadians (normalizedAzimuth + 180);
          elevationRad = toRadians normalizedElevation
      in Cartesian3 (sin azimuthRad * cos elevationRad)
                    (cos azimuthRad * cos elevationRad)
                    (sin elevationRad))"

text \<open>The body of the \<open>try\<close> block; \<open>Inl\<close> is what it throws.\<close>

definition FrustumVisualizer_solve :: "Matrix3 \<Rightarrow> real \<Rightarrow> real \<Rightarrow> error + Quaternion" where
  "FrustumVisualizer_solve enuTransform normalizedAzimuth normalizedElevation =
     (let localDir = FrustumVisualizer_localDir normalizedAzimuth normalizedElevation;
          localUp = Cartesian3 0 0 1
      in case safeNormalize localDir of
           Inl e \<Rightarrow> Inl e
         | Inr None \<Rightarrow> Inl (Error ''Direction vector is zero'')
         | Inr (Some unitLocalDir) \<Rightarrow>
      (case safeNormalize (Cartesian3_cross unitLocalDir localUp) of
           Inl e \<Rightarrow> Inl e
         | Inr None \<Rightarrow> Inl (Error ''Right vector is zero'')
         | Inr (Some unitLocalRight) \<Rightarrow>
      (case safeNormalize (Cartesian3_cross unitLocalRight unitLocalDir) of
           Inl e \<Rightarrow> Inl e
         | Inr None \<Rightarrow> Inl (Error ''Up vector is zero'')
         | Inr (Some unitLocalUp) \<Rightarrow>
      (case safeNormalize (Matrix3_multiplyByVector enuTransform unitLocalDir) of
           Inl e \<Rightarrow> Inl e
         | Inr unitDirection \<Rightarrow>
      (case safeNormalize (Matrix3_multiplyByVector enuTransform unitLocalRight) of
           Inl e \<Rightarrow> Inl e
         | Inr unitRight \<Rightarrow>
      (case safeNormalize (Matrix3_multiplyByVector enuTransform unitLocalUp) of
           Inl e \<Rightarrow> Inl e
         | Inr unitUp \<Rightarrow>
      (case (unitDirection, unitRight, unitUp) of
           (Some d, Some r, Some u) \<Rightarrow>
             Inr (Quaternion_fromRotationMatrix (rotationFromVectors r u d))
         | _ \<Rightarrow> Inl (Error ''Failed to normalise transformed vectors''))))))))"

text \<open>The \<open>orientation\<close> memo: the \<open>catch\<close> logs and returns the identity quaternion.\<close>

definition FrustumVisualizer_orientation :: "Matrix3 \<Rightarrow> real \<Rightarrow> real \<Rightarrow> Quaternion" where
  "FrustumVisualizer_orientation enuTransform normalizedAzimuth normalizedElevation =
     (case FrustumVisualizer_solve enuTransform normalizedAzimuth normalizedElevation of
        Inl e \<Rightarrow> Quaternion_IDENTITY
      | Inr q \<Rightarrow> q)"

text \<open>
  The \<open>frustum\<close> memo. Past the \<open>isInputValid\<close> guard the three numbers are finite; the
  constructor \<open>PerspectiveFrustum\<close> stores its options and does not throw.
\<close>

definition FrustumVisualizer_frustum ::
  "jsnum \<Rightarrow> jsnum \<Rightarrow> jsnum \<Rightarrow> bool \<Rightarrow> PerspectiveFrustum option" where
  "FrustumVisualizer_frustum hfov_deg vfov_deg range_m isInputValid =
     (if \<not> isInputValid then None
      else case (hfov_deg, vfov_deg, range_m) of
        (Finite h, Finite v, Finite r) \<Rightarrow>
          (let hfovRad = toRadians h; vfovRad = toRadians v;
               tanVFov = tan (vfovRad / 2); tanHFov = tan (hfovRad / 2)
           in if tanVFov = 0 \<or> \<not> isFinite (Finite tanVFov) \<or> \<not> isFinite (Finite tanHFov)
              then None
              else Some \<lparr> fov = vfovRad, aspectRatio = js_div tanHFov tanVFov,
                          near = 1 / 2, far = r \<rparr>)
      | _ \<Rightarrow> None)"

record FrustumGeometry =
  fg_frustum :: PerspectiveFrustum
  fg_origin :: Cartesian3
  fg_orientation :: Quaternion

text \<open>
  The \<open>geometryInstances\<close> memo (the appearance is built with it and is null exactly when
  it is). \<open>Quaternion.equals\<close> compares the four components.
\<close>

definition Quaternion_equals :: "Quaternion \<Rightarrow> Quaternion \<Rightarrow> bool" where
  "Quaternion_equals l r = (qx l = qx r \<and> qy l = qy r \<and> qz l = qz r \<and> qw l = qw r)"

definition FrustumVisualizer_geometryInstances ::
  "PerspectiveFrustum option \<Rightarrow> Cartesian3 \<Rightarrow> Quaternion \<Rightarrow> FrustumGeometry option" where
  "FrustumVisualizer_geometryInstances frustum origin orientation =
     (case frustum of
        None \<Rightarrow> None
      | Some f \<Rightarrow>
          if Quaternion_equals orientation Quaternion_IDENTITY then None
          else Some \<lparr> fg_frustum = f, fg_origin = origin, fg_orientation = orientation \<rparr>)"

text \<open>The component: \<open>None\<close> is "renders nothing", \<open>Some g\<close> the primitive drawn.\<close>

definition FrustumVisualizer ::
  "Point \<Rightarrow> real \<Rightarrow> real \<Rightarrow> jsnum \<Rightarrow> jsnum \<Rightarrow> jsnum option \<Rightarrow> bool \<Rightarrow> FrustumGeometry option" where
  "FrustumVisualizer point azimuth elevation hfov_deg vfov_deg range_prop isDeviceSelected =
     (let range_m = FrustumVisualizer_range range_prop;
          isInputValid =
            FrustumVisualizer_isInputValid hfov_deg vfov_deg range_m azimuth elevation point;
          orientation =
            FrustumVisualizer_orientation (FrustumVisualizer_enuTransform point)
              (FrustumVisualizer_normalizedAzimuth azimuth)
              (FrustumVisualizer_normalizedElevation elevation);
          frustum = FrustumVisualizer_frustum hfov_deg vfov_deg range_m isInputValid;
          geometryInstances =
            FrustumVisualizer_geometryInstances frustum (FrustumVisualizer_origin point) orientation
      in if \<not> isInputValid \<or> geometryInstances = None \<or> \<not> isDeviceSelected then None
         else geometryInstances)"

section \<open>SensorShadow: the shadow camera\<close>

text \<open>\<open>sv_range = None\<close> is a \<open>null\<close> range.\<close>

record SensorView =
  sv_azimuth :: real
  sv_elevation :: real
  sv_hfov :: real
  sv_range :: "real option"
  sv_vfov :: real

text \<open>
  The camera position handed to \<open>SensorShadow\<close>: the caller's \<open>Point\<close>, whose \<open>hae\<close> is a
  number, so the constructor takes the \<open>Cartesian3.fromDegrees\<close> branch.
\<close>

record CameraInput =
  ci_lat :: real
  ci_lon :: real
  ci_hae :: real

text \<open>Of the options, colours, alphas and depth bias only feed shader uniforms; they are
  left out.\<close>

record SensorShadowOptions =
  opt_cameraPosition :: CameraInput
  opt_size :: "nat option"
  opt_sensorParameters :: "SensorView option"

record Camera =
  cam_position :: Cartesian3
  cam_direction :: Cartesian3
  cam_up :: Cartesian3
  cam_right :: Cartesian3
  cam_frustum :: PerspectiveFrustum

record ShadowMap =
  sm_lightCamera :: Camera
  sm_size :: nat
  sm_pointLightRadius :: real
  sm_maximumDistance :: real
  sm_normalOffset :: bool
  sm_terrainBias_depthBias :: real

text \<open>
  The scene the instances live in. Listeners, post-process stages and primitives are known
  by the identity of the instance that owns them. The two flags say whether the library's
  \<open>ShadowMap\<close> and \<open>PostProcessStage\<close> constructors throw; \<open>sc_nextId\<close> is the identity
  the next constructed instance gets.
\<close>

record Scene =
  sc_preUpdate :: "nat set"
  sc_postProcessStages :: "nat set"
  sc_primitives :: "nat set"
  sc_shadowMapThrows :: bool
  sc_postProcessThrows :: bool
  sc_nextId :: nat

text \<open>
  An instance. \<open>ss_cameraPosition\<close> stands for the position property, which holds
  \<open>Cartesian3.fromDegrees\<close> of the input: the model keeps the input and converts on read,
  so that the local frame can be taken from latitude and longitude.
\<close>

record SensorShadow =
  ss_id :: nat
  ss_cameraPosition :: CameraInput
  ss_size :: nat
  ss_sensorParameters :: SensorView
  ss_calculatedViewPosition :: Cartesian3
  ss_preUpdateListener :: "nat option"
  ss_viewShadowMap :: "ShadowMap option"
  ss_isDestroyed :: bool
  ss_postProcess :: "nat option"

definition DEFAULT_SHADOW_MAP_SIZE :: nat where
  "DEFAULT_SHADOW_MAP_SIZE = 2048"

definition DEFAULT_NEAR_PLANE :: real where
  "DEFAULT_NEAR_PLANE = 5"

definition DEFAULT_VISUALIZATION_RANGE :: real where
  "DEFAULT_VISUALIZATION_RANGE = 2000"

definition DEFAULT_SENSOR_PARAMETERS :: SensorView where
  "DEFAULT_SENSOR_PARAMETERS =
     \<lparr> sv_azimuth = 0, sv_elevation = 0, sv_hfov = 66, sv_range = Some 1000, sv_vfov = 40 \<rparr>"

text \<open>
  \<open>_initializeProperties\<close>, with the field initialisers of the class and of the
  constructor. The spread of \<open>options.sensorParameters\<close> over the defaults replaces every
  field when the parameters are given.
\<close>

definition initializeProperties :: "nat \<Rightarrow> SensorShadowOptions \<Rightarrow> SensorShadow" where
  "initializeProperties i options =
     \<lparr> ss_id = i,
       ss_cameraPosition = opt_cameraPosition options,
       ss_size = (case opt_size options of None \<Rightarrow> DEFAULT_SHADOW_MAP_SIZE | Some n \<Rightarrow> n),
       ss_sensorParameters =
         (case opt_sensorParameters options of
            None \<Rightarrow> DEFAULT_SENSOR_PARAMETERS | Some sp \<Rightarrow> sp),
       ss_calculatedViewPosition = Cartesian3 0 0 0,
       ss_preUpdateListener = None,
       ss_viewShadowMap = None,
       ss_isDestroyed = False,
       ss_postProcess = None \<rparr>"

text \<open>
  \<open>_calculateCameraVectors\<close>, first half: the local direction and the rotated local up,
  both obtained by rotating about the horizontal axis perpendicular to the azimuth.
\<close>

definition calculateLocalVectors :: "real \<Rightarrow> real \<Rightarrow> error + (Cartesian3 \<times> Cartesian3)" where
  "calculateLocalVectors azimuthDeg elevationDeg =
     (let azimuthRad = toRadians azimuthDeg;
          elevationRad = toRadians elevationDeg;
          localUp = Cartesian3 0 0 1;
          horizontalDirection = Cartesian3 (sin azimuthRad) (cos azimuthRad) 0;
          perpendicularAxis = Cartesian3 (cos azimuthRad) (- sin azimuthRad) 0
      in case Cartesian3_normalize perpendicularAxis of
           Inl e \<Rightarrow> Inl e
         | Inr axisNormalized \<Rightarrow>
             (let quat = Quaternion_fromAxisAngle axisNormalized elevationRad;
                  elevationMatrix = Matrix3_fromQuaternion quat;
                  localDirection = Matrix3_multiplyByVector elevationMatrix horizontalDirection;
                  localUpRotated = Matrix3_multiplyByVector elevationMatrix localUp
              in Inr (localDirection, localUpRotated)))"

text \<open>
  \<open>_calculateCameraVectors\<close>: the result is \<open>(direction, up, right)\<close>. The three vectors
  are normalised in place, then \<open>up\<close> is recomputed from the normalised \<open>right\<close> and
  \<open>direction\<close>.
\<close>

definition calculateCameraVectors ::
  "CameraInput \<Rightarrow> real \<Rightarrow> real \<Rightarrow> error + (Cartesian3 \<times> Cartesian3 \<times> Cartesian3)" where
  "calculateCameraVectors position azimuthDeg elevationDeg =
     (let enuRotation = eastNorthUpRotation (ci_lon position) (ci_lat position)
      in case calculateLocalVectors azimuthDeg elevationDeg of
           Inl e \<Rightarrow> Inl e
         | Inr (localDirection, localUpRotated) \<Rightarrow>
      (let direction0 = Matrix3_multiplyByVector enuRotation localDirection;
           up0 = Matrix3_multiplyByVector enuRotation localUpRotated;
           right0 = Cartesian3_cross direction0 up0
       in case Cartesian3_normalize direction0 of
            Inl e \<Rightarrow> Inl e
          | Inr direction \<Rightarrow>
       (case Cartesian3_normalize up0 of
            Inl e \<Rightarrow> Inl e
          | Inr up1 \<Rightarrow>
       (case Cartesian3_normalize right0 of
            Inl e \<Rightarrow> Inl e
          | Inr right \<Rightarrow>
       (case Cartesian3_normalize (Cartesian3_cross right direction) of
            Inl e \<Rightarrow> Inl e
          | Inr up \<Rightarrow> Inr (direction, up, right))))))"

definition getEffectiveRange :: "SensorShadow \<Rightarrow> real" where
  "getEffectiveRange this =
     (case sv_range (ss_sensorParameters this) of
        Some r \<Rightarrow> r
      | None \<Rightarrow> DEFAULT_VISUALIZATION_RANGE)"

text \<open>\<open>_createFrustum\<close>: the result is \<open>(aspectRatio, frustum)\<close>.\<close>

definition createFrustum :: "SensorShadow \<Rightarrow> real \<Rightarrow> jsnum \<times> PerspectiveFrustum" where
  "createFrustum this effectiveRange =
     (let hfovRad = toRadians (sv_hfov (ss_sensorParameters this) / 2);
          vfovRad = toRadians (sv_vfov (ss_sensorParameters this) / 2);
          aspect = js_div (tan hfovRad) (tan vfovRad);
          frustum = \<lparr> fov = toRadians (sv_vfov (ss_sensorParameters this)),
                      aspectRatio = aspect,
                      near = DEFAULT_NEAR_PLANE,
                      far = effectiveRange \<rparr>
      in (aspect, frustum))"

text \<open>\<open>_createNewShadowMap\<close>: a throwing constructor is caught and logged.\<close>

definition createNewShadowMap :: "SensorShadow \<Rightarrow> Scene \<Rightarrow> Camera \<Rightarrow> real \<Rightarrow> SensorShadow" where
  "createNewShadowMap this scene camera effectiveRange =
     (if sc_shadowMapThrows scene then this
      else this \<lparr> ss_viewShadowMap :=
             Some \<lparr> sm_lightCamera = camera,
                    sm_size = ss_size this,
                    sm_pointLightRadius = effectiveRange,
                    sm_maximumDistance = effectiveRange,
                    sm_normalOffset = False,
                    sm_terrainBias_depthBias = 0 \<rparr> \<rparr>)"

text \<open>\<open>_updateExistingShadowMap\<close>, called only when the shadow map exists.\<close>

definition updateExistingShadowMap :: "ShadowMap \<Rightarrow> SensorShadow \<Rightarrow> Camera \<Rightarrow> jsnum \<Rightarrow> real \<Rightarrow> ShadowMap" where
  "updateExistingShadowMap sm this camera aspect effectiveRange =
     (let lightCamera = sm_lightCamera sm;
          frustum' = (cam_frustum lightCamera)
                       \<lparr> fov := toRadians (sv_vfov (ss_sensorParameters this)),
                         aspectRatio := aspect,
                         far := effectiveRange \<rparr>;
          lightCamera' = lightCamera
                       \<lparr> cam_position := cam_position camera,
                         cam_direction := cam_direction camera,
                         cam_up := cam_up camera,
                         cam_right := cam_right camera,
                         cam_frustum := frustum' \<rparr>
      in sm \<lparr> sm_lightCamera := lightCamera', sm_maximumDistance := effectiveRange \<rparr>)"

text \<open>
  \<open>_createShadowMap(updateOnly)\<close>. The position property always has a value here. \<open>Inl\<close>
  is an exception of \<open>_calculateCameraVectors\<close>, which nothing in the class catches.
\<close>

definition createShadowMap :: "SensorShadow \<Rightarrow> Scene \<Rightarrow> bool \<Rightarrow> error + SensorShadow" where
  "createShadowMap this scene updateOnly =
     (let p = ss_cameraPosition this;
          positionVector = Cartesian3_fromDegrees (ci_lon p) (ci_lat p) (ci_hae p)
      in case calculateCameraVectors p (sv_azimuth (ss_sensorParameters this))
                (sv_elevation (ss_sensorParameters this)) of
           Inl e \<Rightarrow> Inl e
         | Inr (direction, up, right) \<Rightarrow>
             (let effectiveRange = getEffectiveRange this;
                  this1 = this \<lparr> ss_calculatedViewPosition :=
                            Cartesian3_add positionVector
                              (Cartesian3_multiplyByScalar direction effectiveRange) \<rparr>;
                  (aspect, frustum) = createFrustum this1 effectiveRange;
                  camera = \<lparr> cam_position = positionVector, cam_direction = direction,
                             cam_up = up, cam_right = right, cam_frustum = frustum \<rparr>;
                  this2 = (if \<not> updateOnly then createNewShadowMap this1 scene camera effectiveRange
                           else case ss_viewShadowMap this1 of
                                  None \<Rightarrow> this1
                                | Some sm \<Rightarrow>
                                    this1 \<lparr> ss_viewShadowMap :=
                                      Some (updateExistingShadowMap sm this1 camera aspect
                                              effectiveRange) \<rparr>)
              in Inr (case ss_viewShadowMap this2 of
                        None \<Rightarrow> this2
                      | Some sm \<Rightarrow>
                          this2 \<lparr> ss_viewShadowMap :=
                            Some (sm \<lparr> sm_normalOffset := True,
                                       sm_terrainBias_depthBias := 0 \<rparr>) \<rparr>)))"

text \<open>\<open>_setupPreUpdateListener\<close>.\<close>

definition setupPreUpdateListener :: "SensorShadow \<times> Scene \<Rightarrow> SensorShadow \<times> Scene" where
  "setupPreUpdateListener w =
     (let this = fst w; scene = snd w;
          scene1 = (case ss_preUpdateListener this of
                      None \<Rightarrow> scene
                    | Some l \<Rightarrow> scene \<lparr> sc_preUpdate := sc_preUpdate scene - {l} \<rparr>)
      in (this \<lparr> ss_preUpdateListener := Some (ss_id this) \<rparr>,
          scene1 \<lparr> sc_preUpdate := insert (ss_id this) (sc_preUpdate scene1) \<rparr>))"

text \<open>\<open>_addPostProcess\<close>: a throwing stage constructor is caught and logged.\<close>

definition addPostProcess :: "SensorShadow \<times> Scene \<Rightarrow> SensorShadow \<times> Scene" where
  "addPostProcess w =
     (let this = fst w; scene = snd w
      in if ss_viewShadowMap this = None then w
         else if sc_postProcessThrows scene then w
         else setupPreUpdateListener
                (this \<lparr> ss_postProcess := Some (ss_id this) \<rparr>,
                 scene \<lparr> sc_postProcessStages := insert (ss_id this) (sc_postProcessStages scene) \<rparr>))"

text \<open>\<open>_addToScene\<close>.\<close>

definition addToScene :: "SensorShadow \<times> Scene \<Rightarrow> error + (SensorShadow \<times> Scene)" where
  "addToScene w =
     (case createShadowMap (fst w) (snd w) False of
        Inl e \<Rightarrow> Inl e
      | Inr this1 \<Rightarrow>
          (let w2 = addPostProcess (this1, snd w)
           in Inr (fst w2, (snd w2) \<lparr> sc_primitives := insert (ss_id (fst w2)) (sc_primitives (snd w2)) \<rparr>)))"

text \<open>The constructor \<open>new SensorShadow(viewer, options, fsShader)\<close>.\<close>

definition new_SensorShadow :: "Scene \<Rightarrow> SensorShadowOptions \<Rightarrow> error + (SensorShadow \<times> Scene)" where
  "new_SensorShadow scene options =
     addToScene (initializeProperties (sc_nextId scene) options,
                 scene \<lparr> sc_nextId := Suc (sc_nextId scene) \<rparr>)"

text \<open>\<open>destroy()\<close>.\<close>

definition destroy :: "SensorShadow \<times> Scene \<Rightarrow> SensorShadow \<times> Scene" where
  "destroy w =
     (let this = fst w; scene = snd w;
          (this1, scene1) =
            (case ss_preUpdateListener this of
               None \<Rightarrow> (this, scene)
             | Some l \<Rightarrow> (this \<lparr> ss_preUpdateListener := None \<rparr>,
                          scene \<lparr> sc_preUpdate := sc_preUpdate scene - {l} \<rparr>));
          (this2, scene2) =
            (case ss_postProcess this1 of
               None \<Rightarrow> (this1, scene1)
             | Some st \<Rightarrow> (this1 \<lparr> ss_postProcess := None \<rparr>,
                           scene1 \<lparr> sc_postProcessStages := sc_postProcessStages scene1 - {st} \<rparr>))
      in (this2 \<lparr> ss_isDestroyed := True \<rparr>,
          scene2 \<lparr> sc_primitives := sc_primitives scene2 - {ss_id this2} \<rparr>))"

definition isDestroyed :: "SensorShadow \<Rightarrow> bool" where
  "isDestroyed this = ss_isDestroyed this"

text \<open>
  \<open>update(frameState)\<close>: the frame state is the list \<open>shadowMaps\<close>, to which the
  instance's shadow map (possibly undefined) is pushed.
\<close>

definition update ::
  "SensorShadow \<times> Scene \<Rightarrow> ShadowMap option list
     \<Rightarrow> error + ((SensorShadow \<times> Scene) \<times> ShadowMap option list)" where
  "update w shadowMaps =
     (if \<not> ss_isDestroyed (fst w) then
        (case createShadowMap (fst w) (snd w) True of
           Inl e \<Rightarrow> Inl e
         | Inr this1 \<Rightarrow> Inr ((this1, snd w), shadowMaps @ [ss_viewShadowMap this1]))
      else Inr (w, shadowMaps))"

text \<open>The getter \<open>distance\<close>.\<close>

definition distance :: "SensorShadow \<Rightarrow> real" where
  "distance this = getEffectiveRange this"

section \<open>SensorShadowArea: the caller of SensorShadow\<close>

definition DEFAULT_RANGE :: real where
  "DEFAULT_RANGE = 1000"

definition MAX_CAMERA_DISTANCE :: real where
  "MAX_CAMERA_DISTANCE = 2000"

text \<open>\<open>cv_range = None\<close> is an \<open>undefined\<close> range.\<close>

record CurrentViewSensorInfo =
  cv_hfov :: real
  cv_vfov :: real
  cv_range :: "real option"
  cv_azimuth :: real
  cv_elevation :: real

text \<open>\<open>None\<close> is a missing \<open>currentViewSensorInfo\<close>, and the \<open>null\<close> the memo returns for it.\<close>

definition memoizedCurrentViewSensorInfo ::
  "CurrentViewSensorInfo option \<Rightarrow> CurrentViewSensorInfo option" where
  "memoizedCurrentViewSensorInfo currentViewSensorInfo =
     (case currentViewSensorInfo of
        None \<Rightarrow> None
      | Some info \<Rightarrow>
          Some \<lparr> cv_hfov = cv_hfov info, cv_vfov = cv_vfov info, cv_range = cv_range info,
                 cv_azimuth = cv_azimuth info, cv_elevation = - cv_elevation info \<rparr>)"

definition cameraPosition :: "CameraInput \<Rightarrow> CameraInput" where
  "cameraPosition point = \<lparr> ci_lat = ci_lat point, ci_lon = ci_lon point, ci_hae = ci_hae point \<rparr>"

definition sensorConfig ::
  "CameraInput \<Rightarrow> CurrentViewSensorInfo option \<Rightarrow> SensorShadowOptions option" where
  "sensorConfig camPos memoized =
     (case memoized of
        None \<Rightarrow> None
      | Some m \<Rightarrow>
          Some \<lparr> opt_cameraPosition = camPos,
                 opt_size = None,
                 opt_sensorParameters =
                   Some \<lparr> sv_azimuth = cv_azimuth m,
                          sv_elevation = cv_elevation m,
                          sv_hfov = cv_hfov m,
                          sv_range = Some (case cv_range m of None \<Rightarrow> DEFAULT_RANGE | Some r \<Rightarrow> r),
                          sv_vfov = cv_vfov m \<rparr> \<rparr>)"

text \<open>
  The state the effects work on: the reference \<open>sensorShadowRef\<close> and the scene.
  \<open>cleanupSensorShadow\<close>: \<open>destroy\<close> does not throw, so the \<open>catch\<close> is never entered.
\<close>

definition cleanupSensorShadow :: "SensorShadow option \<times> Scene \<Rightarrow> SensorShadow option \<times> Scene" where
  "cleanupSensorShadow st =
     (case fst st of
        None \<Rightarrow> st
      | Some this \<Rightarrow> (None, snd (destroy (this, snd st))))"

text \<open>A string or \<open>null\<close> used as a condition: true for a non-empty string.\<close>

definition truthy :: "string option \<Rightarrow> bool" where
  "truthy s = (case s of None \<Rightarrow> False | Some t \<Rightarrow> t \<noteq> [])"

text \<open>
  The create/destroy effect, run with the current properties. \<open>viewer\<close> says whether the
  viewer is defined. The geodesic surface distance between the viewing camera and the
  sensor, and the camera's height, are read from the library and are arguments here.
\<close>

definition createDestroyEffect ::
  "bool \<Rightarrow> bool \<Rightarrow> string option \<Rightarrow> SensorShadowOptions option \<Rightarrow> string option
     \<Rightarrow> real \<Rightarrow> real \<Rightarrow> CameraInput
     \<Rightarrow> SensorShadow option \<times> Scene \<Rightarrow> SensorShadow option \<times> Scene" where
  "createDestroyEffect isDeviceSelected viewer fsShader config shaderError
       surfaceDistance cameraHeight point st =
     (if \<not> isDeviceSelected then cleanupSensorShadow st
      else if \<not> (viewer \<and> truthy fsShader \<and> config \<noteq> None \<and> \<not> truthy shaderError)
      then cleanupSensorShadow st
      else (let heightDifference = cameraHeight - ci_hae point;
                dist = sqrt (surfaceDistance ^ 2 + heightDifference ^ 2)
            in if dist > MAX_CAMERA_DISTANCE then cleanupSensorShadow st
               else (let st1 = cleanupSensorShadow st
                     in case config of
                          None \<Rightarrow> st1
                        | Some cfg \<Rightarrow>
                            (case new_SensorShadow (snd st1) cfg of
                               Inr (this, scene') \<Rightarrow> (Some this, scene')
                             | Inl e \<Rightarrow> cleanupSensorShadow st1))))"

text \<open>
  Whether the effect returns its clean-up function \<open>cleanupSensorShadow\<close>: it does after
  the \<open>try\<close> block, and returns nothing on the three early exits.
\<close>

definition createDestroyEffect_returnsCleanup ::
  "bool \<Rightarrow> bool \<Rightarrow> string option \<Rightarrow> SensorShadowOptions option \<Rightarrow> string option
     \<Rightarrow> real \<Rightarrow> real \<Rightarrow> CameraInput \<Rightarrow> bool" where
  "createDestroyEffect_returnsCleanup isDeviceSelected viewer fsShader config shaderError
       surfaceDistance cameraHeight point =
     (if \<not> isDeviceSelected then False
      else if \<not> (viewer \<and> truthy fsShader \<and> config \<noteq> None \<and> \<not> truthy shaderError)
      then False
      else (let heightDifference = cameraHeight - ci_hae point;
                dist = sqrt (surfaceDistance ^ 2 + heightDifference ^ 2)
            in \<not> dist > MAX_CAMERA_DISTANCE))"

text \<open>
  The dependency list of the create/destroy effect: \<open>viewer\<close>, \<open>fsShader\<close>,
  \<open>sensorConfig\<close>, \<open>shaderError\<close>, \<open>isDeviceSelected\<close> and the three coordinates of
  \<open>point\<close>. The callback \<open>cleanupSensorShadow\<close>, the last entry of the list, never changes
  (it is memoised with no dependencies). The memoised \<open>sensorConfig\<close> is a new object
  exactly when one of the values in it changed, so the dependencies are compared by value.
  The viewing camera is not in the list.
\<close>

record EffectDeps =
  dep_viewer :: bool
  dep_fsShader :: "string option"
  dep_sensorConfig :: "SensorShadowOptions option"
  dep_shaderError :: "string option"
  dep_isDeviceSelected :: bool
  dep_point :: CameraInput

text \<open>
  One render of the component, by the rule of \<open>useEffect\<close>: the effect runs after the first
  render (\<open>hook = None\<close>) and after a render in which a dependency differs from the previous
  render's; before it runs again, the clean-up function the previous run returned is
  called. \<open>hook\<close> holds the dependencies of the last run and whether it returned a clean-up
  function. \<open>surfaceDistance\<close> and \<open>cameraHeight\<close> are what the viewing camera gives at the
  time of this render; they are read only if the effect runs.
\<close>

definition SensorShadowArea_render ::
  "(EffectDeps \<times> bool) option \<Rightarrow> EffectDeps \<Rightarrow> real \<Rightarrow> real
     \<Rightarrow> SensorShadow option \<times> Scene
     \<Rightarrow> (EffectDeps \<times> bool) option \<times> (SensorShadow option \<times> Scene)" where
  "SensorShadowArea_render hook deps surfaceDistance cameraHeight st =
     (let run = createDestroyEffect (dep_isDeviceSelected deps) (dep_viewer deps)
                  (dep_fsShader deps) (dep_sensorConfig deps) (dep_shaderError deps)
                  surfaceDistance cameraHeight (dep_point deps);
          hook' = Some (deps, createDestroyEffect_returnsCleanup (dep_isDeviceSelected deps)
                    (dep_viewer deps) (dep_fsShader deps) (dep_sensorConfig deps)
                    (dep_shaderError deps) surfaceDistance cameraHeight (dep_point deps))
      in case hook of
           None \<Rightarrow> (hook', run st)
         | Some (old, hasCleanup) \<Rightarrow>
             if old = deps then (hook, st)
             else (hook', run (if hasCleanup then cleanupSensorShadow st else st)))"

section \<open>End-to-end compositions and reference conventions\<close>

text \<open>
  The local direction of the shadow camera that \<open>SensorShadowArea\<close> creates for a sensor:
  the memo and the configuration of the component, the parameters the constructor keeps, and
  the first half of \<open>_calculateCameraVectors\<close>, composed as the code calls them. \<open>None\<close>
  is a missing configuration, for which no camera is created.
\<close>

definition SensorShadowArea_localDirection ::
  "CameraInput \<Rightarrow> CurrentViewSensorInfo \<Rightarrow> (error + Cartesian3) option" where
  "SensorShadowArea_localDirection point info =
     map_option
       (\<lambda>cfg. let sp = ss_sensorParameters (initializeProperties 0 cfg)
              in map_sum id fst (calculateLocalVectors (sv_azimuth sp) (sv_elevation sp)))
       (sensorConfig (cameraPosition point) (memoizedCurrentViewSensorInfo (Some info)))"

text \<open>
  The specification's Variant B, in its words: Variant A's construction with the azimuth
  offset by +180 degrees before conversion and the sign of the elevation inverted.
\<close>

definition spec_VariantB_localDirection :: "real \<Rightarrow> real \<Rightarrow> Cartesian3" where
  "spec_VariantB_localDirection azimuth elevation =
     SensorFrustum_localDirection (azimuth + 180) (- elevation)"

section \<open>Auxiliary notions and example inputs\<close>

text \<open>The dot product, and the unit right vector a solver obtains from a local direction
  by normalising its cross product with the local up axis.\<close>

fun Cartesian3_dot :: "Cartesian3 \<Rightarrow> Cartesian3 \<Rightarrow> real" where
  "Cartesian3_dot (Cartesian3 lx ly lz) (Cartesian3 rx ry rz) = lx * rx + ly * ry + lz * rz"

definition unitRight :: "Cartesian3 \<Rightarrow> Cartesian3" where
  "unitRight d = Cartesian3_multiplyByScalar (Cartesian3_cross d (Cartesian3 0 0 1))
                   (1 / Cartesian3_magnitude (Cartesian3_cross d (Cartesian3 0 0 1)))"

text \<open>The local up axis after the elevation rotation of the shadow camera, in closed form.\<close>

definition localUpRotated :: "real \<Rightarrow> real \<Rightarrow> Cartesian3" where
  "localUpRotated az e =
     Cartesian3 (- sin (toRadians az) * sin (toRadians e))
                (- cos (toRadians az) * sin (toRadians e)) (cos (toRadians e))"

text \<open>An empty scene in which the library's constructors succeed.\<close>

definition scene0 :: Scene where
  "scene0 = \<lparr> sc_preUpdate = {}, sc_postProcessStages = {}, sc_primitives = {},
               sc_shadowMapThrows = False, sc_postProcessThrows = False, sc_nextId = 0 \<rparr>"

text \<open>Options of a sensor at latitude 0, longitude 0 with a 60 by 40 degree field of view and
  a range of 150 m; the same with a vertical field of view of 0.\<close>

definition options60 :: SensorShadowOptions where
  "options60 =
     \<lparr> opt_cameraPosition = \<lparr> ci_lat = 0, ci_lon = 0, ci_hae = 0 \<rparr>, opt_size = None,
       opt_sensorParameters =
         Some \<lparr> sv_azimuth = 0, sv_elevation = 45, sv_hfov = 60, sv_range = Some 150,
                sv_vfov = 40 \<rparr> \<rparr>"

definition options_vfov0 :: SensorShadowOptions where
  "options_vfov0 =
     \<lparr> opt_cameraPosition = \<lparr> ci_lat = 0, ci_lon = 0, ci_hae = 0 \<rparr>, opt_size = None,
       opt_sensorParameters =
         Some \<lparr> sv_azimuth = 0, sv_elevation = 45, sv_hfov = 60, sv_range = Some 150,
                sv_vfov = 0 \<rparr> \<rparr>"

text \<open>The dependencies of a selected sensor with these options, the shader loaded; the same
  after the sensor's vertical field of view changed.\<close>

definition deps60 :: EffectDeps where
  "deps60 =
     \<lparr> dep_viewer = True, dep_fsShader = Some ''void main() {}'',
       dep_sensorConfig = Some options60, dep_shaderError = None,
       dep_isDeviceSelected = True,
       dep_point = \<lparr> ci_lat = 0, ci_lon = 0, ci_hae = 0 \<rparr> \<rparr>"

definition deps_vfov0 :: EffectDeps where
  "deps_vfov0 =
     \<lparr> dep_viewer = True, dep_fsShader = Some ''void main() {}'',
       dep_sensorConfig = Some options_vfov0, dep_shaderError = None,
       dep_isDeviceSelected = True,
       dep_point = \<lparr> ci_lat = 0, ci_lon = 0, ci_hae = 0 \<rparr> \<rparr>"

section \<open>Vector algebra\<close>

lemma sin_cos_mult_one: "sin a * sin a + cos a * cos a = (1::real)"
  using sin_cos_squared_add3[of a] by (simp add: algebra_simps)

lemma magnitudeSquared_dot: "Cartesian3_magnitudeSquared v = Cartesian3_dot v v"
  by (cases v) simp

lemma cross_magnitudeSquared:
  "Cartesian3_magnitudeSquared (Cartesian3_cross a b)
   = Cartesian3_magnitudeSquared a * Cartesian3_magnitudeSquared b - (Cartesian3_dot a b) ^ 2"
  by (cases a, cases b) (simp add: power2_eq_square algebra_simps)

lemma cross_dot_left: "Cartesian3_dot (Cartesian3_cross a b) a = 0"
  by (cases a, cases b) (simp add: algebra_simps)

lemma multiplyByScalar_dot:
  "Cartesian3_dot (Cartesian3_multiplyByScalar a k) b = k * Cartesian3_dot a b"
  by (cases a, cases b) (simp add: algebra_simps)

text \<open>Normalising a unit vector changes nothing; normalising the zero vector throws; any
  other vector becomes a unit vector.\<close>

lemma normalize_unit:
  "Cartesian3_magnitudeSquared v = 1 \<Longrightarrow> Cartesian3_normalize v = Inr v"
  by (cases v) (simp add: Cartesian3_normalize_def Cartesian3_magnitude_def)

lemma normalize_zero:
  "Cartesian3_magnitudeSquared v = 0 \<Longrightarrow> Cartesian3_normalize v = Inl DeveloperError"
  by (simp add: Cartesian3_normalize_def Cartesian3_magnitude_def)

lemma normalize_nonzero:
  assumes "Cartesian3_magnitudeSquared v \<noteq> 0"
  shows "Cartesian3_normalize v
           = Inr (Cartesian3_multiplyByScalar v (1 / Cartesian3_magnitude v))
       \<and> Cartesian3_magnitudeSquared (Cartesian3_multiplyByScalar v (1 / Cartesian3_magnitude v)) = 1"
proof (cases v)
  case (Cartesian3 a b c)
  define m where "m = sqrt (a * a + b * b + c * c)"
  have nn: "0 \<le> a * a + b * b + c * c" by simp
  have ne: "a * a + b * b + c * c \<noteq> 0" using assms by (simp add: Cartesian3)
  have pos: "0 < a * a + b * b + c * c" using nn ne by linarith
  have m0: "m \<noteq> 0" using pos by (simp add: m_def)
  have mm: "m * m = a * a + b * b + c * c" using pos by (simp add: m_def)
  have "a * (1 / m) * (a * (1 / m)) + b * (1 / m) * (b * (1 / m)) + c * (1 / m) * (c * (1 / m))
        = (a * a + b * b + c * c) / (m * m)"
    by (simp add: add_divide_distrib)
  also have "\<dots> = 1" using ne by (simp add: mm)
  finally have u: "a * (1 / m) * (a * (1 / m)) + b * (1 / m) * (b * (1 / m))
                     + c * (1 / m) * (c * (1 / m)) = 1" .
  show ?thesis
    using m0 u
    by (simp add: Cartesian3 Cartesian3_normalize_def Cartesian3_magnitude_def m_def[symmetric])
qed

text \<open>The local-to-world rotation preserves dot products, hence lengths.\<close>

lemma enu_dot_components:
  fixes sl cl sp cp :: real
  assumes "sl * sl + cl * cl = 1" "sp * sp + cp * cp = 1"
  shows "Cartesian3_dot
           (Matrix3_multiplyByVector
              (Matrix3 (Cartesian3 (- sl) cl 0) (Cartesian3 (- sp * cl) (- sp * sl) cp)
                       (Cartesian3 (cp * cl) (cp * sl) sp))
              (Cartesian3 a b c))
           (Matrix3_multiplyByVector
              (Matrix3 (Cartesian3 (- sl) cl 0) (Cartesian3 (- sp * cl) (- sp * sl) cp)
                       (Cartesian3 (cp * cl) (cp * sl) sp))
              (Cartesian3 x y z))
         = a * x + b * y + c * z"
  apply simp
  using assms by algebra

lemma eastNorthUp_dot:
  "Cartesian3_dot (Matrix3_multiplyByVector (eastNorthUpRotation lo la) v)
                  (Matrix3_multiplyByVector (eastNorthUpRotation lo la) w)
   = Cartesian3_dot v w"
proof (cases v, cases w)
  fix a b c x y z
  assume v: "v = Cartesian3 a b c" and w: "w = Cartesian3 x y z"
  show ?thesis
    unfolding v w eastNorthUpRotation_def Let_def
    by (simp only: enu_dot_components[OF sin_cos_mult_one sin_cos_mult_one] Cartesian3_dot.simps)
qed

lemma eastNorthUp_magnitudeSquared:
  "Cartesian3_magnitudeSquared (Matrix3_multiplyByVector (eastNorthUpRotation lo la) v)
   = Cartesian3_magnitudeSquared v"
  by (simp add: magnitudeSquared_dot eastNorthUp_dot)

section \<open>The local directions\<close>

lemma localDirection_unit:
  "Cartesian3_magnitudeSquared (SensorFrustum_localDirection az e) = 1"
proof -
  have "sin a * cos b * (sin a * cos b) + cos a * cos b * (cos a * cos b) + sin b * sin b = 1"
    for a b :: real
    using sin_cos_mult_one[of a] sin_cos_mult_one[of b] by algebra
  then show ?thesis by (simp add: SensorFrustum_localDirection_def Let_def)
qed

text \<open>The right vector before normalisation has squared length \<open>cos\<^sup>2\<close> of the elevation.\<close>

lemma localDirection_cross_up:
  "Cartesian3_magnitudeSquared
     (Cartesian3_cross (SensorFrustum_localDirection az e) (Cartesian3 0 0 1))
   = (cos (toRadians e)) ^ 2"
proof -
  have "cos a * cos b * (cos a * cos b) + sin a * cos b * (sin a * cos b) = cos b * cos b"
    for a b :: real
    using sin_cos_mult_one[of a] by algebra
  then show ?thesis by (simp add: SensorFrustum_localDirection_def Let_def power2_eq_square)
qed

lemma FrustumVisualizer_localDir_eq:
  "FrustumVisualizer_localDir az e = SensorFrustum_localDirection (az + 180) e"
  by (simp add: FrustumVisualizer_localDir_def SensorFrustum_localDirection_def)

lemma localUpRotated_unit:
  "Cartesian3_magnitudeSquared (localUpRotated az e) = 1"
proof -
  have "sin a * sin b * (sin a * sin b) + cos a * sin b * (cos a * sin b) + cos b * cos b = 1"
    for a b :: real
    using sin_cos_mult_one[of a] sin_cos_mult_one[of b] by algebra
  then show ?thesis by (simp add: localUpRotated_def)
qed

lemma localUpRotated_orthogonal:
  "Cartesian3_dot (SensorFrustum_localDirection az e) (localUpRotated az e) = 0"
proof -
  have "sin a * cos b * - (sin a * sin b) + cos a * cos b * - (cos a * sin b) + sin b * cos b = 0"
    for a b :: real
    using sin_cos_mult_one[of a] by algebra
  then show ?thesis by (simp add: SensorFrustum_localDirection_def localUpRotated_def Let_def)
qed

lemma normalize_perpendicularAxis:
  "Cartesian3_normalize (Cartesian3 (cos a) (- sin a) 0) = Inr (Cartesian3 (cos a) (- sin a) 0)"
  by (simp add: Cartesian3_normalize_def Cartesian3_magnitude_def)

lemma elevation_rotates_direction:
  fixes c s ch sh :: real
  assumes "s * s + c * c = 1"
  shows "Matrix3_multiplyByVector
           (Matrix3_fromQuaternion (Quaternion (c * sh) (- s * sh) (0 * sh) ch))
           (Cartesian3 s c 0)
         = Cartesian3 (s * (ch * ch - sh * sh)) (c * (ch * ch - sh * sh)) (2 * sh * ch)"
proof -
  have x: "(c * sh * (c * sh) - - s * sh * (- s * sh) - 0 + ch * ch) * s
             + 2 * (c * sh * (- s * sh) - 0) * c = s * (ch * ch - sh * sh)"
    using assms by algebra
  have y: "2 * (c * sh * (- s * sh) + 0) * s
             + (- (c * sh * (c * sh)) + - s * sh * (- s * sh) - 0 + ch * ch) * c
           = c * (ch * ch - sh * sh)"
    using assms by algebra
  have z: "2 * (0 - - s * sh * ch) * s + 2 * (0 + c * sh * ch) * c = 2 * sh * ch"
    using assms by algebra
  show ?thesis
    using x y z by (simp add: Let_def)
qed

lemma elevation_rotates_up:
  fixes c s ch sh :: real
  assumes "s * s + c * c = 1"
  shows "Matrix3_multiplyByVector
           (Matrix3_fromQuaternion (Quaternion (c * sh) (- s * sh) (0 * sh) ch))
           (Cartesian3 0 0 1)
         = Cartesian3 (- s * (2 * sh * ch)) (- c * (2 * sh * ch)) (ch * ch - sh * sh)"
proof -
  have z: "- (c * sh * (c * sh)) - - s * sh * (- s * sh) + 0 + ch * ch = ch * ch - sh * sh"
    using assms by algebra
  show ?thesis
    using z by (simp add: Let_def)
qed

text \<open>The first half of the shadow camera's solver computes Variant A's local direction for
  the azimuth and elevation it is given: no offset, no inversion.\<close>

lemma calculateLocalVectors_eq:
  "calculateLocalVectors az e = Inr (SensorFrustum_localDirection az e, localUpRotated az e)"
proof -
  define a where "a = toRadians az"
  define h where "h = toRadians e / 2"
  have e: "toRadians e = 2 * h" by (simp add: h_def)
  have sq: "sin a * sin a + cos a * cos a = 1" by (rule sin_cos_mult_one)
  have sd: "sin (2 * h) = 2 * sin h * cos h" by (simp add: sin_double)
  have cd: "cos (2 * h) = cos h * cos h - sin h * sin h"
    by (simp add: cos_double power2_eq_square)
  have q: "Quaternion_fromAxisAngle (Cartesian3 (cos a) (- sin a) 0) (2 * h)
           = Quaternion (cos a * sin h) (- sin a * sin h) (0 * sin h) (cos h)"
    by (simp add: Quaternion_fromAxisAngle_def Let_def)
  show ?thesis
    unfolding calculateLocalVectors_def SensorFrustum_localDirection_def localUpRotated_def
      Let_def a_def[symmetric] normalize_perpendicularAxis e q sum.case
      elevation_rotates_direction[OF sq] elevation_rotates_up[OF sq] sd cd
    by simp
qed

section \<open>The three solvers on a local-to-world rotation\<close>

text \<open>SensorFrustum: the solver returns the frame whenever the right vector is not the zero
  vector.\<close>

lemma SensorFrustum_vectors_regular:
  assumes "cos (toRadians e) \<noteq> 0"
  shows "SensorFrustum_vectors (eastNorthUpRotation lo la) az e
         = Inr (Matrix3_multiplyByVector (eastNorthUpRotation lo la)
                  (unitRight (SensorFrustum_localDirection az e)),
                Matrix3_multiplyByVector (eastNorthUpRotation lo la)
                  (Cartesian3_cross (unitRight (SensorFrustum_localDirection az e))
                     (SensorFrustum_localDirection az e)),
                Matrix3_multiplyByVector (eastNorthUpRotation lo la)
                  (SensorFrustum_localDirection az e))"
proof -
  define d where "d = SensorFrustum_localDirection az e"
  define r where "r = unitRight d"
  have nz: "Cartesian3_magnitudeSquared (Cartesian3_cross d (Cartesian3 0 0 1)) \<noteq> 0"
    using assms(1) by (simp add: d_def localDirection_cross_up)
  have n1: "Cartesian3_normalize (Cartesian3_cross d (Cartesian3 0 0 1)) = Inr r"
    and r1: "Cartesian3_magnitudeSquared r = 1"
    using normalize_nonzero[OF nz] by (simp_all add: r_def unitRight_def)
  have d1: "Cartesian3_magnitudeSquared d = 1" by (simp add: d_def localDirection_unit)
  have rd: "Cartesian3_dot r d = 0"
    by (simp add: r_def unitRight_def multiplyByScalar_dot cross_dot_left)
  have u1: "Cartesian3_magnitudeSquared (Cartesian3_cross r d) = 1"
    by (simp add: cross_magnitudeSquared r1 d1 rd)
  show ?thesis
    unfolding SensorFrustum_vectors_def Let_def d_def[symmetric] r_def[symmetric]
    by (simp add: n1 normalize_unit u1 eastNorthUp_magnitudeSquared d1 r1)
qed

lemma SensorFrustum_solve_isl:
  "isl (SensorFrustum_solve E az e) = isl (SensorFrustum_vectors E az e)"
  by (simp add: SensorFrustum_solve_def split: sum.splits prod.splits)

text \<open>FrustumVisualizer: the solver throws exactly when the squared length of the right
  vector is at most \<open>VECTOR_EPSILON\<close>.\<close>

lemma VECTOR_EPSILON_bounds: "VECTOR_EPSILON < 1" "0 < VECTOR_EPSILON"
  by (simp_all add: VECTOR_EPSILON_def EPSILON10_def)

lemma safeNormalize_unit:
  "Cartesian3_magnitudeSquared v = 1 \<Longrightarrow> safeNormalize v = Inr (Some v)"
  using VECTOR_EPSILON_bounds by (simp add: safeNormalize_def normalize_unit)

lemma FrustumVisualizer_solve_degenerate:
  assumes "(cos (toRadians e)) ^ 2 \<le> VECTOR_EPSILON"
  shows "FrustumVisualizer_solve E az e = Inl (Error ''Right vector is zero'')"
proof -
  have d1: "Cartesian3_magnitudeSquared (FrustumVisualizer_localDir az e) = 1"
    by (simp add: FrustumVisualizer_localDir_eq localDirection_unit)
  have r0: "Cartesian3_magnitudeSquared
              (Cartesian3_cross (FrustumVisualizer_localDir az e) (Cartesian3 0 0 1))
            \<le> VECTOR_EPSILON"
    using assms by (simp add: FrustumVisualizer_localDir_eq localDirection_cross_up)
  show ?thesis
    unfolding FrustumVisualizer_solve_def Let_def
    by (simp add: safeNormalize_unit[OF d1]) (simp add: safeNormalize_def r0)
qed

lemma FrustumVisualizer_solve_regular:
  assumes "VECTOR_EPSILON < (cos (toRadians e)) ^ 2"
  shows "FrustumVisualizer_solve (eastNorthUpRotation lo la) az e
         = Inr (Quaternion_fromRotationMatrix
                 (rotationFromVectors
                    (Matrix3_multiplyByVector (eastNorthUpRotation lo la)
                       (unitRight (FrustumVisualizer_localDir az e)))
                    (Matrix3_multiplyByVector (eastNorthUpRotation lo la)
                       (Cartesian3_cross (unitRight (FrustumVisualizer_localDir az e))
                          (FrustumVisualizer_localDir az e)))
                    (Matrix3_multiplyByVector (eastNorthUpRotation lo la)
                       (FrustumVisualizer_localDir az e))))"
proof -
  define d where "d = FrustumVisualizer_localDir az e"
  define r where "r = unitRight d"
  have d1: "Cartesian3_magnitudeSquared d = 1"
    by (simp add: d_def FrustumVisualizer_localDir_eq localDirection_unit)
  have big: "VECTOR_EPSILON < Cartesian3_magnitudeSquared (Cartesian3_cross d (Cartesian3 0 0 1))"
    using assms by (simp add: d_def FrustumVisualizer_localDir_eq localDirection_cross_up)
  then have nz: "Cartesian3_magnitudeSquared (Cartesian3_cross d (Cartesian3 0 0 1)) \<noteq> 0"
    using VECTOR_EPSILON_bounds(2) by linarith
  have n1: "Cartesian3_normalize (Cartesian3_cross d (Cartesian3 0 0 1)) = Inr r"
    and r1: "Cartesian3_magnitudeSquared r = 1"
    using normalize_nonzero[OF nz] by (simp_all add: r_def unitRight_def)
  have s1: "safeNormalize (Cartesian3_cross d (Cartesian3 0 0 1)) = Inr (Some r)"
    using big by (simp add: safeNormalize_def n1)
  have rd: "Cartesian3_dot r d = 0"
    by (simp add: r_def unitRight_def multiplyByScalar_dot cross_dot_left)
  have u1: "Cartesian3_magnitudeSquared (Cartesian3_cross r d) = 1"
    by (simp add: cross_magnitudeSquared r1 d1 rd)
  show ?thesis
    unfolding FrustumVisualizer_solve_def Let_def d_def[symmetric]
    by (simp add: safeNormalize_unit d1 s1 u1 r1 eastNorthUp_magnitudeSquared r_def[symmetric])
qed

text \<open>SensorShadow: the solver never throws; every vector it normalises has length 1.\<close>

lemma calculateCameraVectors_eq:
  "calculateCameraVectors p az e =
     (let E = eastNorthUpRotation (ci_lon p) (ci_lat p);
          direction = Matrix3_multiplyByVector E (SensorFrustum_localDirection az e);
          up0 = Matrix3_multiplyByVector E (localUpRotated az e);
          right = Cartesian3_cross direction up0
      in Inr (direction, Cartesian3_cross right direction, right))"
proof -
  define E where "E = eastNorthUpRotation (ci_lon p) (ci_lat p)"
  define D where "D = Matrix3_multiplyByVector E (SensorFrustum_localDirection az e)"
  define U where "U = Matrix3_multiplyByVector E (localUpRotated az e)"
  have D1: "Cartesian3_magnitudeSquared D = 1"
    by (simp add: D_def E_def eastNorthUp_magnitudeSquared localDirection_unit)
  have U1: "Cartesian3_magnitudeSquared U = 1"
    by (simp add: U_def E_def eastNorthUp_magnitudeSquared localUpRotated_unit)
  have DU: "Cartesian3_dot D U = 0"
    by (simp add: D_def U_def E_def eastNorthUp_dot localUpRotated_orthogonal)
  have R1: "Cartesian3_magnitudeSquared (Cartesian3_cross D U) = 1"
    by (simp add: cross_magnitudeSquared D1 U1 DU)
  have RD: "Cartesian3_dot (Cartesian3_cross D U) D = 0" by (rule cross_dot_left)
  have V1: "Cartesian3_magnitudeSquared (Cartesian3_cross (Cartesian3_cross D U) D) = 1"
    by (simp add: cross_magnitudeSquared[of "Cartesian3_cross D U" D] R1 D1 RD)
  show ?thesis
    unfolding calculateCameraVectors_def Let_def calculateLocalVectors_eq E_def[symmetric]
    by (simp add: D_def[symmetric] U_def[symmetric] normalize_unit D1 U1 R1 V1)
qed

lemma calculateCameraVectors_Inr:
  "\<exists>d u r. calculateCameraVectors p az e = Inr (d, u, r)"
  by (simp add: calculateCameraVectors_eq Let_def)

section \<open>The frustum outline\<close>

lemma pushCorners_relativeAngles:
  "pushCorners origin rot range_m [(a0, b0), (a1, b1), (a2, b2), (a3, b3)] [] =
     [Cartesian3_add origin (Matrix3_multiplyByVector rot
        (Cartesian3 (tan a0 * range_m) (tan b0 * range_m) (- range_m))),
      Cartesian3_add origin (Matrix3_multiplyByVector rot
        (Cartesian3 (tan a1 * range_m) (tan b1 * range_m) (- range_m))),
      Cartesian3_add origin (Matrix3_multiplyByVector rot
        (Cartesian3 (tan a2 * range_m) (tan b2 * range_m) (- range_m))),
      Cartesian3_add origin (Matrix3_multiplyByVector rot
        (Cartesian3 (tan a3 * range_m) (tan b3 * range_m) (- range_m)))]"
  by (simp add: Let_def)

text \<open>
  C2. For every orientation, field-of-view pair, range and origin the outline generator
  returns the reference list: 16 points, the four spokes origin-corner followed by the four
  base edges as disjoint pairs, each corner being
  \<open>origin + R (tan relH * range, tan relV * range, - range)\<close> with half-angles equal to the
  field of view in radians divided by 3, in the order bottom-left, bottom-right, top-right,
  top-left.
\<close>

theorem outlinePositions_reference:
  "outlinePositions origin orientation hfov vfov range_m
     = spec_outline origin orientation hfov vfov range_m
   \<and> length (outlinePositions origin orientation hfov vfov range_m) = 16"
  unfolding outlinePositions_def spec_outline_def spec_corner_def relativeAngles_def Let_def
  by (simp add: pushCorners_relativeAngles)

section \<open>Variant A at the origin of the geodetic grid\<close>

lemma SensorFrustum_origin_frame:
  "SensorFrustum_enuTransform \<lparr>lat = 0, lon = 0, hae = Some 0\<rparr>
     = Matrix3 (Cartesian3 0 1 0) (Cartesian3 0 0 1) (Cartesian3 1 0 0)"
  by (simp add: SensorFrustum_enuTransform_def eastNorthUpRotation_def toRadians_def)

text \<open>
  C8. For the origin at latitude 0, longitude 0, height 0, azimuth 0 and elevation 0, the
  local direction of Variant A is \<open>(0, 1, 0)\<close>, and the world direction the solver
  normalises is the North column of the local-to-world rotation (the second column,
  \<open>(0, 0, 1)\<close> in the Earth-fixed frame); right and up are its East and Up columns.
\<close>

theorem variantA_points_north:
  "SensorFrustum_localDirection (SensorFrustum_normalizedAzimuth 0)
     (SensorFrustum_normalizedElevation 0) = Cartesian3 0 1 0
   \<and> SensorFrustum_vectors (SensorFrustum_enuTransform \<lparr>lat = 0, lon = 0, hae = Some 0\<rparr>)
        (SensorFrustum_normalizedAzimuth 0) (SensorFrustum_normalizedElevation 0)
       = Inr (column0 (SensorFrustum_enuTransform \<lparr>lat = 0, lon = 0, hae = Some 0\<rparr>),
              column2 (SensorFrustum_enuTransform \<lparr>lat = 0, lon = 0, hae = Some 0\<rparr>),
              column1 (SensorFrustum_enuTransform \<lparr>lat = 0, lon = 0, hae = Some 0\<rparr>))
   \<and> column1 (SensorFrustum_enuTransform \<lparr>lat = 0, lon = 0, hae = Some 0\<rparr>) = Cartesian3 0 0 1"
  by (simp add: SensorFrustum_origin_frame SensorFrustum_normalizedAzimuth_def js_rem_def
        SensorFrustum_normalizedElevation_def
        SensorFrustum_localDirection_def SensorFrustum_vectors_def toRadians_def
        Cartesian3_normalize_def Cartesian3_magnitude_def)

section \<open>The identity quaternion in FrustumVisualizer\<close>

lemmas FrustumVisualizer_eval =
  FrustumVisualizer_solve_def FrustumVisualizer_localDir_def eastNorthUpRotation_def
  toRadians_def safeNormalize_def VECTOR_EPSILON_def EPSILON10_def Cartesian3_normalize_def
  Cartesian3_magnitude_def rotationFromVectors_def Matrix3_zero_def
  Quaternion_fromRotationMatrix_def entry_def Quaternion_IDENTITY_def
  FrustumVisualizer_enuTransform_def FrustumVisualizer_normalizedAzimuth_def
  FrustumVisualizer_normalizedElevation_def js_rem_def

lemmas FrustumVisualizer_valid_eval =
  FrustumVisualizer_isInputValid_def isValidAngle_def isValidRange_def js_gt_def js_lt_def
  FrustumVisualizer_range_def

text \<open>A sensor looking straight down (elevation 90 before the sign flip): the right vector
  is shorter than the threshold and the solver throws.\<close>

lemma FrustumVisualizer_vertical_fails:
  "FrustumVisualizer_solve (FrustumVisualizer_enuTransform \<lparr>lat = 0, lon = 0, hae = None\<rparr>)
     (FrustumVisualizer_normalizedAzimuth 0) (FrustumVisualizer_normalizedElevation 90)
   = Inl (Error ''Right vector is zero'')"
  by (simp add: FrustumVisualizer_eval)

text \<open>The orientation memo returns the identity exactly when the solver threw or returned
  the identity.\<close>

lemma FrustumVisualizer_orientation_identity_iff:
  "(FrustumVisualizer_orientation E a b = Quaternion_IDENTITY)
     = (isl (FrustumVisualizer_solve E a b)
        \<or> FrustumVisualizer_solve E a b = Inr Quaternion_IDENTITY)"
  by (cases "FrustumVisualizer_solve E a b") (simp_all add: FrustumVisualizer_orientation_def)

text \<open>
  C9. Whenever the orientation FrustumVisualizer computes equals the identity quaternion,
  the geometry memo is null and the component renders nothing, whatever the other
  properties are. The orientation is the identity in two cases only: the solver failed and
  the catch substituted it, or the solver succeeded and the identity is its result. The
  geometry memo sees the quaternion alone, and is null for the identity with any frustum
  and any origin, so the output is the same \<open>None\<close> in both cases.
\<close>

theorem identity_orientation_renders_nothing:
  assumes "FrustumVisualizer_orientation (FrustumVisualizer_enuTransform point)
             (FrustumVisualizer_normalizedAzimuth azimuth)
             (FrustumVisualizer_normalizedElevation elevation) = Quaternion_IDENTITY"
  shows "FrustumVisualizer_geometryInstances
           (FrustumVisualizer_frustum hfov_deg vfov_deg (FrustumVisualizer_range range_prop)
              (FrustumVisualizer_isInputValid hfov_deg vfov_deg (FrustumVisualizer_range range_prop)
                 azimuth elevation point))
           (FrustumVisualizer_origin point)
           (FrustumVisualizer_orientation (FrustumVisualizer_enuTransform point)
             (FrustumVisualizer_normalizedAzimuth azimuth)
             (FrustumVisualizer_normalizedElevation elevation)) = None
       \<and> FrustumVisualizer point azimuth elevation hfov_deg vfov_deg range_prop isDeviceSelected = None
       \<and> (isl (FrustumVisualizer_solve (FrustumVisualizer_enuTransform point)
                 (FrustumVisualizer_normalizedAzimuth azimuth)
                 (FrustumVisualizer_normalizedElevation elevation))
          \<or> FrustumVisualizer_solve (FrustumVisualizer_enuTransform point)
               (FrustumVisualizer_normalizedAzimuth azimuth)
               (FrustumVisualizer_normalizedElevation elevation) = Inr Quaternion_IDENTITY)
       \<and> FrustumVisualizer_geometryInstances frustum origin Quaternion_IDENTITY = None"
proof -
  have a: "FrustumVisualizer_geometryInstances f p Quaternion_IDENTITY = None" for f p
    by (simp add: FrustumVisualizer_geometryInstances_def Quaternion_equals_def
          split: option.splits)
  have b: "FrustumVisualizer point azimuth elevation hfov_deg vfov_deg range_prop isDeviceSelected
             = None"
    by (simp add: FrustumVisualizer_def Let_def assms a)
  have c: "isl (FrustumVisualizer_solve (FrustumVisualizer_enuTransform point)
                 (FrustumVisualizer_normalizedAzimuth azimuth)
                 (FrustumVisualizer_normalizedElevation elevation))
          \<or> FrustumVisualizer_solve (FrustumVisualizer_enuTransform point)
               (FrustumVisualizer_normalizedAzimuth azimuth)
               (FrustumVisualizer_normalizedElevation elevation) = Inr Quaternion_IDENTITY"
    using assms by (simp only: FrustumVisualizer_orientation_identity_iff)
  show ?thesis
    unfolding assms using a b c by simp
qed

text \<open>
  Witness of C9: a valid, selected sensor looking straight down. The solver throws, the
  orientation is the identity, and nothing is rendered although the frustum memo is not
  null.
\<close>

theorem identity_orientation_renders_nothing_witness:
  "FrustumVisualizer_isInputValid (Finite 60) (Finite 40) (FrustumVisualizer_range None) 0 90
       \<lparr>lat = 0, lon = 0, hae = None\<rparr>
   \<and> FrustumVisualizer_solve (FrustumVisualizer_enuTransform \<lparr>lat = 0, lon = 0, hae = None\<rparr>)
        (FrustumVisualizer_normalizedAzimuth 0) (FrustumVisualizer_normalizedElevation 90)
       = Inl (Error ''Right vector is zero'')
   \<and> FrustumVisualizer_orientation (FrustumVisualizer_enuTransform \<lparr>lat = 0, lon = 0, hae = None\<rparr>)
        (FrustumVisualizer_normalizedAzimuth 0) (FrustumVisualizer_normalizedElevation 90)
       = Quaternion_IDENTITY
   \<and> FrustumVisualizer_frustum (Finite 60) (Finite 40) (FrustumVisualizer_range None) True \<noteq> None
   \<and> FrustumVisualizer \<lparr>lat = 0, lon = 0, hae = None\<rparr> 0 90 (Finite 60) (Finite 40) None True = None"
proof -
  have o2: "FrustumVisualizer_orientation
              (FrustumVisualizer_enuTransform \<lparr>lat = 0, lon = 0, hae = None\<rparr>)
              (FrustumVisualizer_normalizedAzimuth 0) (FrustumVisualizer_normalizedElevation 90)
            = Quaternion_IDENTITY"
    by (simp add: FrustumVisualizer_orientation_def FrustumVisualizer_vertical_fails)
  have v2: "FrustumVisualizer_isInputValid (Finite 60) (Finite 40) (FrustumVisualizer_range None)
              0 90 \<lparr>lat = 0, lon = 0, hae = None\<rparr>"
    by (simp add: FrustumVisualizer_valid_eval)
  have fr: "FrustumVisualizer_frustum (Finite 60) (Finite 40) (FrustumVisualizer_range None) True
              \<noteq> None"
  proof -
    have "0 < tan (pi / 9)" by (intro tan_gt_zero) simp_all
    then show ?thesis
      by (simp add: FrustumVisualizer_frustum_def FrustumVisualizer_range_def Let_def
            toRadians_def)
  qed
  show ?thesis
    using identity_orientation_renders_nothing[OF o2, of "Finite 60" "Finite 40" None True]
      v2 o2 fr FrustumVisualizer_vertical_fails
    by simp
qed

section \<open>Degenerate geometry in the orientation solvers\<close>

text \<open>\<open>Cartesian3.normalize\<close> throws for the zero vector only; \<open>safeNormalize\<close> returns
  \<open>null\<close> for every vector of squared length at most \<open>VECTOR_EPSILON\<close>.\<close>

lemma normalize_isl:
  "isl (Cartesian3_normalize v) = (Cartesian3_magnitudeSquared v = 0)"
  by (simp add: Cartesian3_normalize_def Cartesian3_magnitude_def Let_def)

lemma safeNormalize_null:
  "(safeNormalize v = Inr None) = (Cartesian3_magnitudeSquared v \<le> VECTOR_EPSILON)"
  by (simp add: safeNormalize_def split: sum.splits)

text \<open>
  C4, as the code has it. On the local-to-world rotation of any point, the solver of
  FrustumVisualizer fails exactly when the right vector it is about to normalise has
  squared length at most \<open>VECTOR_EPSILON = 1e-10\<close>, the vectors \<open>safeNormalize\<close> refuses.
  The solver of SensorFrustum normalises with \<open>Cartesian3.normalize\<close>, which throws for
  the zero vector only: whenever its right vector is not the zero vector, however short,
  the solver returns a frame. In both, the squared length of the right vector is \<open>cos\<^sup>2\<close> of
  the elevation. For every frame matrix whatsoever, what the solver throws is caught inside
  the orientation memo, which then returns the identity quaternion: the memo always returns
  a quaternion. With the identity FrustumVisualizer renders nothing; SensorFrustum, when
  selected, always draws the outline, rotated by the quaternion its memo returned.
\<close>

theorem solver_degeneracy:
  "isl (FrustumVisualizer_solve (eastNorthUpRotation lo la) az e)
     = (Cartesian3_magnitudeSquared
          (Cartesian3_cross (FrustumVisualizer_localDir az e) (Cartesian3 0 0 1)) \<le> VECTOR_EPSILON)
   \<and> (0 < Cartesian3_magnitudeSquared
          (Cartesian3_cross (SensorFrustum_localDirection az e) (Cartesian3 0 0 1)) \<longrightarrow>
        \<not> isl (SensorFrustum_solve (eastNorthUpRotation lo la) az e))
   \<and> Cartesian3_magnitudeSquared
          (Cartesian3_cross (FrustumVisualizer_localDir az e) (Cartesian3 0 0 1))
       = (cos (toRadians e)) ^ 2
   \<and> Cartesian3_magnitudeSquared
          (Cartesian3_cross (SensorFrustum_localDirection az e) (Cartesian3 0 0 1))
       = (cos (toRadians e)) ^ 2
   \<and> (isl (FrustumVisualizer_solve E az e) \<longrightarrow>
        FrustumVisualizer_orientation E az e = Quaternion_IDENTITY)
   \<and> SensorFrustum_orientation E az e
       = (case SensorFrustum_solve E az e of Inl err \<Rightarrow> Quaternion_IDENTITY | Inr q \<Rightarrow> q)
   \<and> (isl (FrustumVisualizer_solve (FrustumVisualizer_enuTransform point)
              (FrustumVisualizer_normalizedAzimuth azimuth)
              (FrustumVisualizer_normalizedElevation elevation)) \<longrightarrow>
        FrustumVisualizer point azimuth elevation hfov_deg vfov_deg range_prop isDeviceSelected
          = None)
   \<and> SensorFrustum point azimuth elevation hfov vfov range_opt True
       = Some (outlinePositions (SensorFrustum_origin point)
                 (SensorFrustum_orientation (SensorFrustum_enuTransform point)
                    (SensorFrustum_normalizedAzimuth azimuth)
                    (SensorFrustum_normalizedElevation elevation))
                 hfov vfov (case range_opt of None \<Rightarrow> 1200 | Some r \<Rightarrow> r))
   \<and> isl (Cartesian3_normalize v) = (Cartesian3_magnitudeSquared v = 0)
   \<and> (safeNormalize v = Inr None) = (Cartesian3_magnitudeSquared v \<le> VECTOR_EPSILON)
   \<and> Matrix3_fromQuaternion Quaternion_IDENTITY
       = Matrix3 (Cartesian3 1 0 0) (Cartesian3 0 1 0) (Cartesian3 0 0 1)"
proof -
  have fv: "isl (FrustumVisualizer_solve (eastNorthUpRotation lo la) az e)
              = ((cos (toRadians e)) ^ 2 \<le> VECTOR_EPSILON)"
  proof (cases "(cos (toRadians e)) ^ 2 \<le> VECTOR_EPSILON")
    case True
    then show ?thesis by (simp add: FrustumVisualizer_solve_degenerate)
  next
    case False
    then have "VECTOR_EPSILON < (cos (toRadians e)) ^ 2" by simp
    from FrustumVisualizer_solve_regular[OF this] False show ?thesis by simp
  qed
  have sf: "0 < (cos (toRadians e)) ^ 2 \<longrightarrow>
              \<not> isl (SensorFrustum_solve (eastNorthUpRotation lo la) az e)"
  proof
    assume "0 < (cos (toRadians e)) ^ 2"
    then have "cos (toRadians e) \<noteq> 0" by auto
    from SensorFrustum_vectors_regular[OF this] show
      "\<not> isl (SensorFrustum_solve (eastNorthUpRotation lo la) az e)"
      by (simp add: SensorFrustum_solve_isl)
  qed
  have o1: "isl (FrustumVisualizer_solve M a b) \<longrightarrow>
        FrustumVisualizer_orientation M a b = Quaternion_IDENTITY" for M a b
    by (simp add: FrustumVisualizer_orientation_def split: sum.splits)
  have o2: "SensorFrustum_orientation E az e
       = (case SensorFrustum_solve E az e of Inl err \<Rightarrow> Quaternion_IDENTITY | Inr q \<Rightarrow> q)"
    by (simp add: SensorFrustum_orientation_def)
  have r1: "isl (FrustumVisualizer_solve (FrustumVisualizer_enuTransform point)
              (FrustumVisualizer_normalizedAzimuth azimuth)
              (FrustumVisualizer_normalizedElevation elevation)) \<longrightarrow>
        FrustumVisualizer point azimuth elevation hfov_deg vfov_deg range_prop isDeviceSelected
          = None"
    using o1 by (simp add: FrustumVisualizer_def FrustumVisualizer_geometryInstances_def
                   Quaternion_equals_def Let_def split: option.splits)
  have r2: "SensorFrustum point azimuth elevation hfov vfov range_opt True
       = Some (outlinePositions (SensorFrustum_origin point)
                 (SensorFrustum_orientation (SensorFrustum_enuTransform point)
                    (SensorFrustum_normalizedAzimuth azimuth)
                    (SensorFrustum_normalizedElevation elevation))
                 hfov vfov (case range_opt of None \<Rightarrow> 1200 | Some r \<Rightarrow> r))"
    by (simp add: SensorFrustum_def Let_def)
  have m: "Matrix3_fromQuaternion Quaternion_IDENTITY
       = Matrix3 (Cartesian3 1 0 0) (Cartesian3 0 1 0) (Cartesian3 0 0 1)"
    by (simp add: Quaternion_IDENTITY_def)
  have c1: "Cartesian3_magnitudeSquared
          (Cartesian3_cross (FrustumVisualizer_localDir az e) (Cartesian3 0 0 1))
       = (cos (toRadians e)) ^ 2"
    by (simp add: FrustumVisualizer_localDir_eq localDirection_cross_up)
  have c2: "Cartesian3_magnitudeSquared
          (Cartesian3_cross (SensorFrustum_localDirection az e) (Cartesian3 0 0 1))
       = (cos (toRadians e)) ^ 2"
    by (simp add: localDirection_cross_up)
  show ?thesis
    unfolding c1 c2 using fv sf o1 o2 r1 r2 m normalize_isl[of v] safeNormalize_null[of v]
    by simp
qed

text \<open>Witness of C4: for a sensor looking straight down, the solver of FrustumVisualizer
  fails, its memo returns the identity and the component renders nothing; for a level
  sensor neither solver fails.\<close>

theorem solver_degeneracy_witness:
  "isl (FrustumVisualizer_solve (eastNorthUpRotation 0 0) 0 90)
   \<and> FrustumVisualizer_orientation (eastNorthUpRotation 0 0) 0 90 = Quaternion_IDENTITY
   \<and> isl (FrustumVisualizer_solve (FrustumVisualizer_enuTransform \<lparr>lat = 0, lon = 0, hae = None\<rparr>)
            (FrustumVisualizer_normalizedAzimuth 0) (FrustumVisualizer_normalizedElevation 90))
   \<and> FrustumVisualizer \<lparr>lat = 0, lon = 0, hae = None\<rparr> 0 90 (Finite 60) (Finite 40) None True
       = None
   \<and> \<not> isl (FrustumVisualizer_solve (eastNorthUpRotation 0 0) 0 0)
   \<and> 0 < Cartesian3_magnitudeSquared
            (Cartesian3_cross (SensorFrustum_localDirection 0 0) (Cartesian3 0 0 1))
   \<and> \<not> isl (SensorFrustum_solve (eastNorthUpRotation 0 0) 0 0)"
proof -
  have c: "cos (toRadians 90) = 0" "cos (toRadians 0) = 1" by (simp_all add: toRadians_def)
  have e: "0 \<le> VECTOR_EPSILON" "\<not> 1 \<le> VECTOR_EPSILON"
    by (simp_all add: VECTOR_EPSILON_def EPSILON10_def)
  show ?thesis
    using solver_degeneracy[of 0 0 0 90 "eastNorthUpRotation 0 0"
            "\<lparr>lat = 0, lon = 0, hae = None\<rparr>" 0 90 "Finite 60" "Finite 40" None True]
          solver_degeneracy[of 0 0 0 0 "eastNorthUpRotation 0 0"] c e
    by (simp add: FrustumVisualizer_vertical_fails)
qed

lemma near_vertical_cos:
  "0 < cos (toRadians (899999 / 10000))"
  "(cos (toRadians (899999 / 10000))) ^ 2 \<le> VECTOR_EPSILON"
proof -
  define x :: real where "x = pi / 1800000"
  have r: "toRadians (899999 / 10000) = pi / 2 - x"
    by (simp add: toRadians_def x_def)
  have c: "cos (toRadians (899999 / 10000)) = sin x"
    unfolding r by (simp add: cos_sin_eq[of "pi / 2 - x"])
  have x0: "0 < x" by (simp add: x_def)
  have x4: "x < 4 / 1800000" using pi_less_4 by (simp add: x_def)
  have xpi: "x < pi" using pi_gt_zero by (simp add: x_def)
  have s0: "0 < sin x" using sin_gt_zero[OF x0 xpi] .
  have sx: "sin x \<le> x" using sin_x_le_x[of x] x0 by simp
  show "0 < cos (toRadians (899999 / 10000))" using s0 c by simp
  have "sin x * sin x \<le> (4 / 1800000) * (4 / 1800000)"
    using s0 sx x4 by (intro mult_mono) simp_all
  also have "\<dots> \<le> 1 / 10 ^ 10" by simp
  finally show "(cos (toRadians (899999 / 10000))) ^ 2 \<le> VECTOR_EPSILON"
    by (simp add: c power2_eq_square VECTOR_EPSILON_def EPSILON10_def)
qed

text \<open>
  Counterexample to C4 as stated: for SensorFrustum at azimuth 0 and elevation 89.9999 the
  right vector has a squared length of at most 1e-10, which is near zero by the program's own
  threshold, and yet the solver does not fail, so no identity is substituted.
\<close>

theorem SensorFrustum_near_zero_not_failing:
  "Cartesian3_magnitudeSquared
     (Cartesian3_cross
        (SensorFrustum_localDirection (SensorFrustum_normalizedAzimuth 0)
           (SensorFrustum_normalizedElevation (899999 / 10000)))
        (Cartesian3 0 0 1)) \<le> VECTOR_EPSILON
   \<and> \<not> isl (SensorFrustum_solve (SensorFrustum_enuTransform \<lparr>lat = 0, lon = 0, hae = None\<rparr>)
              (SensorFrustum_normalizedAzimuth 0)
              (SensorFrustum_normalizedElevation (899999 / 10000)))"
proof -
  have nz: "cos (toRadians (899999 / 10000)) \<noteq> 0" using near_vertical_cos(1) by simp
  show ?thesis
    using near_vertical_cos(2)
      SensorFrustum_vectors_regular[OF nz, of 0 0 "SensorFrustum_normalizedAzimuth 0"]
    by (simp add: localDirection_cross_up SensorFrustum_solve_isl SensorFrustum_enuTransform_def
          SensorFrustum_normalizedElevation_def)
qed

section \<open>The direction convention of the shadow camera\<close>

text \<open>
  C1, as the code has it. The caller negates the elevation once and passes the azimuth
  unchanged; the solver neither offsets the azimuth nor inverts the elevation again. End to
  end, the local direction of the shadow camera is Variant A's local direction at the same
  azimuth and the negated elevation, \<open>(sin az cos el, cos az cos el, - sin el)\<close>.
\<close>

theorem shadowCamera_direction_convention:
  "sensorConfig (cameraPosition point) (memoizedCurrentViewSensorInfo (Some info))
     = Some \<lparr> opt_cameraPosition = point, opt_size = None,
              opt_sensorParameters =
                Some \<lparr> sv_azimuth = cv_azimuth info,
                       sv_elevation = - cv_elevation info,
                       sv_hfov = cv_hfov info,
                       sv_range = Some (case cv_range info of None \<Rightarrow> DEFAULT_RANGE | Some r \<Rightarrow> r),
                       sv_vfov = cv_vfov info \<rparr> \<rparr>
   \<and> map_sum id fst (calculateLocalVectors az e) = Inr (SensorFrustum_localDirection az e)
   \<and> SensorShadowArea_localDirection point info
       = Some (Inr (SensorFrustum_localDirection (cv_azimuth info) (- cv_elevation info)))
   \<and> SensorFrustum_localDirection (cv_azimuth info) (- cv_elevation info)
       = Cartesian3 (sin (toRadians (cv_azimuth info)) * cos (toRadians (cv_elevation info)))
                    (cos (toRadians (cv_azimuth info)) * cos (toRadians (cv_elevation info)))
                    (- sin (toRadians (cv_elevation info)))"
  by (simp add: sensorConfig_def cameraPosition_def memoizedCurrentViewSensorInfo_def
        SensorShadowArea_localDirection_def initializeProperties_def calculateLocalVectors_eq
        SensorFrustum_localDirection_def toRadians_def Let_def)

text \<open>
  Counterexample to C1 as stated: for azimuth 0 and elevation 0 the shadow camera's local
  direction is \<open>(0, 1, 0)\<close>, north, while the construction with the azimuth offset by +180
  degrees gives \<open>(0, - 1, 0)\<close>, south.
\<close>

theorem shadowCamera_no_azimuth_offset:
  "SensorShadowArea_localDirection \<lparr> ci_lat = 0, ci_lon = 0, ci_hae = 0 \<rparr>
     \<lparr> cv_hfov = 60, cv_vfov = 40, cv_range = None, cv_azimuth = 0, cv_elevation = 0 \<rparr>
     = Some (Inr (Cartesian3 0 1 0))
   \<and> spec_VariantB_localDirection 0 0 = Cartesian3 0 (- 1) 0"
  by (simp add: sensorConfig_def cameraPosition_def memoizedCurrentViewSensorInfo_def
        SensorShadowArea_localDirection_def initializeProperties_def calculateLocalVectors_eq
        spec_VariantB_localDirection_def SensorFrustum_localDirection_def toRadians_def Let_def)

section \<open>Construction and update of the shadow map\<close>

lemma createFrustum_far: "far (snd (createFrustum this x)) = x"
  by (simp add: createFrustum_def Let_def)

lemma createShadowMap_Inr: "\<exists>this'. createShadowMap this scene updateOnly = Inr this'"
proof -
  obtain d u r where v: "calculateCameraVectors (ss_cameraPosition this)
      (sv_azimuth (ss_sensorParameters this)) (sv_elevation (ss_sensorParameters this))
        = Inr (d, u, r)"
    using calculateCameraVectors_Inr by blast
  show ?thesis
    by (simp add: createShadowMap_def v Let_def split: prod.splits)
qed

lemma createShadowMap_frame:
  assumes "createShadowMap this scene updateOnly = Inr this'"
  shows "ss_sensorParameters this' = ss_sensorParameters this"
    and "ss_id this' = ss_id this"
    and "ss_isDestroyed this' = ss_isDestroyed this"
    and "ss_preUpdateListener this' = ss_preUpdateListener this"
    and "ss_postProcess this' = ss_postProcess this"
    and "getEffectiveRange this' = getEffectiveRange this"
  using assms
  by (auto simp: createShadowMap_def createNewShadowMap_def getEffectiveRange_def Let_def
        split: sum.splits prod.splits if_splits option.splits)

lemma createShadowMap_new:
  assumes "ss_viewShadowMap this = None"
      and "createShadowMap this scene False = Inr this'"
  shows "sc_shadowMapThrows scene \<Longrightarrow> ss_viewShadowMap this' = None"
    and "\<not> sc_shadowMapThrows scene \<Longrightarrow>
           \<exists>sm. ss_viewShadowMap this' = Some sm
             \<and> cam_frustum (sm_lightCamera sm) = snd (createFrustum this (getEffectiveRange this))
             \<and> sm_maximumDistance sm = getEffectiveRange this"
  using assms
  by (auto simp: createShadowMap_def createNewShadowMap_def createFrustum_def getEffectiveRange_def
        Let_def split: sum.splits prod.splits if_splits option.splits)

lemma createShadowMap_update:
  assumes "createShadowMap this scene True = Inr this'"
  shows "ss_viewShadowMap this = None \<Longrightarrow> ss_viewShadowMap this' = None"
    and "ss_viewShadowMap this = Some sm0 \<Longrightarrow>
           \<exists>sm. ss_viewShadowMap this' = Some sm
             \<and> fov (cam_frustum (sm_lightCamera sm))
                 = fov (snd (createFrustum this (getEffectiveRange this)))
             \<and> aspectRatio (cam_frustum (sm_lightCamera sm))
                 = aspectRatio (snd (createFrustum this (getEffectiveRange this)))
             \<and> far (cam_frustum (sm_lightCamera sm)) = getEffectiveRange this
             \<and> near (cam_frustum (sm_lightCamera sm)) = near (cam_frustum (sm_lightCamera sm0))
             \<and> sm_maximumDistance sm = getEffectiveRange this"
  using assms
  by (auto simp: createShadowMap_def updateExistingShadowMap_def createFrustum_def
        getEffectiveRange_def Let_def split: sum.splits prod.splits if_splits option.splits)

lemma addPostProcess_frame:
  "ss_viewShadowMap (fst (addPostProcess w)) = ss_viewShadowMap (fst w)"
  "ss_sensorParameters (fst (addPostProcess w)) = ss_sensorParameters (fst w)"
  "ss_id (fst (addPostProcess w)) = ss_id (fst w)"
  "ss_isDestroyed (fst (addPostProcess w)) = ss_isDestroyed (fst w)"
  by (simp_all add: addPostProcess_def setupPreUpdateListener_def Let_def)

text \<open>The constructor always returns an instance.\<close>

lemma new_SensorShadow_Inr: "\<exists>this scene'. new_SensorShadow scene options = Inr (this, scene')"
proof -
  obtain this1 where c: "createShadowMap (initializeProperties (sc_nextId scene) options)
                           (scene \<lparr> sc_nextId := Suc (sc_nextId scene) \<rparr>) False = Inr this1"
    using createShadowMap_Inr by blast
  show ?thesis by (simp add: new_SensorShadow_def addToScene_def c Let_def)
qed

lemma new_SensorShadow_props:
  assumes "new_SensorShadow scene options = Inr (this, scene')"
  shows "ss_sensorParameters this =
          (case opt_sensorParameters options of None \<Rightarrow> DEFAULT_SENSOR_PARAMETERS | Some sp \<Rightarrow> sp)"
    and "ss_id this = sc_nextId scene"
    and "\<not> ss_isDestroyed this"
    and "ss_id this \<in> sc_primitives scene'"
    and "sc_shadowMapThrows scene \<Longrightarrow> ss_viewShadowMap this = None"
    and "\<not> sc_shadowMapThrows scene \<Longrightarrow>
            \<exists>sm. ss_viewShadowMap this = Some sm
               \<and> cam_frustum (sm_lightCamera sm) = snd (createFrustum this (getEffectiveRange this))
               \<and> sm_maximumDistance sm = getEffectiveRange this"
proof -
  define this0 where "this0 = initializeProperties (sc_nextId scene) options"
  define scene1 where "scene1 = scene \<lparr> sc_nextId := Suc (sc_nextId scene) \<rparr>"
  obtain this1 where c: "createShadowMap this0 scene1 False = Inr this1"
    using createShadowMap_Inr by blast
  have n: "ss_viewShadowMap this0 = None" by (simp add: this0_def initializeProperties_def)
  have t: "this = fst (addPostProcess (this1, scene1))"
    using assms
    unfolding new_SensorShadow_def addToScene_def this0_def[symmetric] scene1_def[symmetric]
    by (simp add: c Let_def)
  have s: "scene' = (snd (addPostProcess (this1, scene1)))
                      \<lparr> sc_primitives :=
                          insert (ss_id this) (sc_primitives (snd (addPostProcess (this1, scene1)))) \<rparr>"
    using assms
    unfolding new_SensorShadow_def addToScene_def this0_def[symmetric] scene1_def[symmetric]
    by (auto simp: c Let_def)
  note f = createShadowMap_frame[OF c]
  have cf: "createFrustum this = createFrustum this0"
    by (simp add: createFrustum_def fun_eq_iff t addPostProcess_frame f)
  have ge: "getEffectiveRange this = getEffectiveRange this0"
    by (simp add: getEffectiveRange_def t addPostProcess_frame f)
  show "ss_sensorParameters this =
          (case opt_sensorParameters options of None \<Rightarrow> DEFAULT_SENSOR_PARAMETERS | Some sp \<Rightarrow> sp)"
    by (simp add: t addPostProcess_frame f) (simp add: this0_def initializeProperties_def)
  show "ss_id this = sc_nextId scene"
    by (simp add: t addPostProcess_frame f) (simp add: this0_def initializeProperties_def)
  show "\<not> ss_isDestroyed this"
    by (simp add: t addPostProcess_frame f) (simp add: this0_def initializeProperties_def)
  show "ss_id this \<in> sc_primitives scene'" by (simp add: s)
  show "sc_shadowMapThrows scene \<Longrightarrow> ss_viewShadowMap this = None"
    using createShadowMap_new(1)[OF n c] by (simp add: t addPostProcess_frame scene1_def)
  show "\<not> sc_shadowMapThrows scene \<Longrightarrow>
            \<exists>sm. ss_viewShadowMap this = Some sm
               \<and> cam_frustum (sm_lightCamera sm) = snd (createFrustum this (getEffectiveRange this))
               \<and> sm_maximumDistance sm = getEffectiveRange this"
    using createShadowMap_new(2)[OF n c]
    by (simp add: cf ge) (simp add: t addPostProcess_frame scene1_def)
qed

text \<open>An update of a live instance always returns, and leaves the scene as it was.\<close>

lemma update_live:
  assumes "\<not> ss_isDestroyed (fst w)"
  shows "\<exists>this2 fs2. update w fs = Inr ((this2, snd w), fs2)
           \<and> createShadowMap (fst w) (snd w) True = Inr this2"
proof -
  obtain this2 where c: "createShadowMap (fst w) (snd w) True = Inr this2"
    using createShadowMap_Inr by blast
  show ?thesis using assms by (simp add: update_def c)
qed

lemmas shadow_eval =
  new_SensorShadow_def addToScene_def createShadowMap_def calculateCameraVectors_eq
  createNewShadowMap_def addPostProcess_def setupPreUpdateListener_def initializeProperties_def
  destroy_def cleanupSensorShadow_def createDestroyEffect_def truthy_def MAX_CAMERA_DISTANCE_def
  scene0_def options60_def Let_def

section \<open>The aspect ratio of a 60 by 40 degree field of view\<close>

lemma cos_pi9_cubic: "8 * cos (pi / 9) ^ 3 - 6 * cos (pi / 9) - 1 = (0::real)"
proof -
  have "cos (3 * (pi / 9)) = 4 * cos (pi / 9) ^ 3 - 3 * cos (pi / 9)"
    by (rule cos_treble_cos)
  moreover have "3 * (pi / 9) = pi / 3" by simp
  ultimately have "4 * cos (pi / 9) ^ 3 - 3 * cos (pi / 9) = 1 / 2"
    by (simp add: cos_60)
  then show ?thesis by simp
qed

lemma cubic_root_bounds:
  fixes c :: real
  assumes root: "8 * c ^ 3 - 6 * c - 1 = 0" and pos: "0 < c"
  shows "9393 / 10000 < c \<and> c < 9399 / 10000"
proof -
  have half: "1 / 2 < c"
  proof (rule ccontr)
    assume "\<not> 1 / 2 < c"
    then have le: "c \<le> 1 / 2" by simp
    have "c * c \<le> (1 / 2) * (1 / 2)" using le pos by (intro mult_mono) simp_all
    then have "c * c * c \<le> (1 / 4) * c" using pos by (simp add: mult_right_mono)
    then have "8 * c ^ 3 \<le> 2 * c" by (simp add: power3_eq_cube)
    with root pos show False by simp
  qed
  have mono: "8 * a ^ 3 - 6 * a - 1 \<le> 8 * b ^ 3 - 6 * b - 1" if "1 / 2 < a" "a \<le> b"
    for a b :: real
  proof -
    have f: "(8 * b ^ 3 - 6 * b - 1) - (8 * a ^ 3 - 6 * a - 1)
               = (b - a) * (8 * (a * a + a * b + b * b) - 6)"
      by (simp add: power3_eq_cube algebra_simps)
    have b: "1 / 2 < b" using that by simp
    have "1 / 4 < a * a" using that(1) mult_strict_mono[of "1/2" a "1/2" a] by simp
    moreover have "1 / 4 < a * b" using that(1) b mult_strict_mono[of "1/2" a "1/2" b] by simp
    moreover have "1 / 4 < b * b" using b mult_strict_mono[of "1/2" b "1/2" b] by simp
    ultimately have "0 \<le> 8 * (a * a + a * b + b * b) - 6" by simp
    then have "0 \<le> (b - a) * (8 * (a * a + a * b + b * b) - 6)" using that(2) by simp
    with f show ?thesis by linarith
  qed
  have lo: "9393 / 10000 < c"
  proof (rule ccontr)
    assume "\<not> 9393 / 10000 < c"
    then have "c \<le> 9393 / 10000" by simp
    from mono[OF half this] root show False by (simp add: power3_eq_cube)
  qed
  have hi: "c < 9399 / 10000"
  proof (rule ccontr)
    assume "\<not> c < 9399 / 10000"
    then have "9399 / 10000 \<le> c" by simp
    from mono[OF _ this] root show False by (simp add: power3_eq_cube)
  qed
  show ?thesis using lo hi by simp
qed

text \<open>\<open>tan 30 / tan 20\<close> (degrees) lies between 1.58 and 1.59.\<close>

lemma aspect_60_40_bounds:
  "158 / 100 < tan (pi / 6) / tan (pi / 9) \<and> tan (pi / 6) / tan (pi / 9) < 159 / 100"
proof -
  define c where "c = cos (pi / 9)"
  define s where "s = sin (pi / 9)"
  define A where "A = tan (pi / 6) / tan (pi / 9)"
  have cpos: "0 < c" unfolding c_def by (rule cos_gt_zero) (use pi_gt_zero in simp_all)
  have spos: "0 < s" unfolding s_def by (rule sin_gt_zero) (use pi_gt_zero in simp_all)
  have cb: "9393 / 10000 < c \<and> c < 9399 / 10000"
    using cubic_root_bounds[OF cos_pi9_cubic[folded c_def] cpos] .
  have s2: "s * s = 1 - c * c"
    using sin_cos_squared_add3[of "pi / 9"] unfolding c_def s_def by (simp add: algebra_simps)
  have t9: "tan (pi / 9) = s / c" by (simp add: tan_def c_def s_def)
  have Aeq: "A = c / (sqrt 3 * s)" unfolding A_def tan_30 t9 by simp
  have Apos: "0 < A" unfolding Aeq using cpos spos by simp
  have AA0: "A * A = (c * c) / (3 * (s * s))" unfolding Aeq by (simp add: field_simps)
  have c2lo: "(9393 / 10000) * (9393 / 10000) < c * c"
    using cb by (intro mult_strict_mono) simp_all
  have c2hi: "c * c < (9399 / 10000) * (9399 / 10000)"
    using cb cpos by (intro mult_strict_mono) simp_all
  have d: "0 < 3 * (1 - c * c)" using c2hi by simp
  have AA: "A * A = c * c / (3 * (1 - c * c))" using AA0 by (simp only: s2)
  have lo2: "(158 / 100) * (158 / 100) < A * A"
    unfolding AA using d c2lo by (simp add: field_simps)
  have hi2: "A * A < (159 / 100) * (159 / 100)"
    unfolding AA using d c2hi by (simp add: field_simps)
  have lo: "158 / 100 < A"
  proof (rule ccontr)
    assume "\<not> 158 / 100 < A"
    then have "A \<le> 158 / 100" by simp
    then have "A * A \<le> (158 / 100) * (158 / 100)" using Apos by (intro mult_mono) simp_all
    with lo2 show False by simp
  qed
  have hi: "A < 159 / 100"
  proof (rule ccontr)
    assume "\<not> A < 159 / 100"
    then have "159 / 100 \<le> A" by simp
    then have "(159 / 100) * (159 / 100) \<le> A * A" by (intro mult_mono) simp_all
    with hi2 show False by simp
  qed
  show ?thesis using lo hi unfolding A_def by simp
qed

lemma toRadians_30: "toRadians 30 = pi / 6"
  by (simp add: toRadians_def)

lemma toRadians_20: "toRadians 20 = pi / 9"
  by (simp add: toRadians_def)

lemma tan_half_fov_pos:
  assumes "0 < v" "v < 180"
  shows "0 < tan (toRadians (v / 2))"
proof (rule tan_gt_zero)
  show "0 < toRadians (v / 2)" using assms pi_gt_zero by (simp add: toRadians_def)
  have "v / 2 * (pi / 180) < 90 * (pi / 180)"
    using assms pi_gt_zero by (intro mult_strict_right_mono) simp_all
  then show "toRadians (v / 2) < pi / 2" by (simp add: toRadians_def)
qed

lemma tan_30_pos: "0 < tan (toRadians 30)"
  using tan_half_fov_pos[of 60] by simp

section \<open>The perspective frustum of the shadow camera\<close>

text \<open>
  C3, as the code has it. For every sensor view with field-of-view angles in (0, 180), the
  frustum SensorShadow builds has the vertical field of view (in radians) as its \<open>fov\<close>,
  \<open>tan (hfov / 2) / tan (vfov / 2)\<close> as its aspect ratio, the constant 5 as its near plane
  and the effective range as its far plane, the effective range being the range of the
  sensor view when it is not null and 2000 otherwise; a newly created shadow map gets
  exactly this frustum. For \<open>hfov = 60\<close> and \<open>vfov = 40\<close> the aspect ratio lies between
  1.58 and 1.59.
\<close>

theorem shadowCamera_frustum:
  assumes "0 < sv_hfov (ss_sensorParameters this)" "sv_hfov (ss_sensorParameters this) < 180"
      and "0 < sv_vfov (ss_sensorParameters this)" "sv_vfov (ss_sensorParameters this) < 180"
  shows "createFrustum this (getEffectiveRange this) =
           (Finite (tan (toRadians (sv_hfov (ss_sensorParameters this) / 2))
                    / tan (toRadians (sv_vfov (ss_sensorParameters this) / 2))),
            \<lparr> fov = toRadians (sv_vfov (ss_sensorParameters this)),
              aspectRatio = Finite (tan (toRadians (sv_hfov (ss_sensorParameters this) / 2))
                                    / tan (toRadians (sv_vfov (ss_sensorParameters this) / 2))),
              near = 5,
              far = getEffectiveRange this \<rparr>)
       \<and> getEffectiveRange this =
           (case sv_range (ss_sensorParameters this) of Some r \<Rightarrow> r | None \<Rightarrow> 2000)
       \<and> (ss_viewShadowMap this = None \<and> \<not> sc_shadowMapThrows scene \<longrightarrow>
            (\<exists>this' sm. createShadowMap this scene False = Inr this'
               \<and> ss_viewShadowMap this' = Some sm
               \<and> cam_frustum (sm_lightCamera sm) = snd (createFrustum this (getEffectiveRange this))))
       \<and> (sv_hfov (ss_sensorParameters this) = 60 \<and> sv_vfov (ss_sensorParameters this) = 40 \<longrightarrow>
            158 / 100 < tan (toRadians (sv_hfov (ss_sensorParameters this) / 2))
                        / tan (toRadians (sv_vfov (ss_sensorParameters this) / 2))
          \<and> tan (toRadians (sv_hfov (ss_sensorParameters this) / 2))
                        / tan (toRadians (sv_vfov (ss_sensorParameters this) / 2)) < 159 / 100)"
proof -
  have nz: "tan (toRadians (sv_vfov (ss_sensorParameters this) / 2)) \<noteq> 0"
    using tan_half_fov_pos[OF assms(3,4)] by simp
  have a: "createFrustum this (getEffectiveRange this) =
           (Finite (tan (toRadians (sv_hfov (ss_sensorParameters this) / 2))
                    / tan (toRadians (sv_vfov (ss_sensorParameters this) / 2))),
            \<lparr> fov = toRadians (sv_vfov (ss_sensorParameters this)),
              aspectRatio = Finite (tan (toRadians (sv_hfov (ss_sensorParameters this) / 2))
                                    / tan (toRadians (sv_vfov (ss_sensorParameters this) / 2))),
              near = 5,
              far = getEffectiveRange this \<rparr>)"
    using nz by (simp add: createFrustum_def js_div_def Let_def DEFAULT_NEAR_PLANE_def)
  have b: "getEffectiveRange this =
           (case sv_range (ss_sensorParameters this) of Some r \<Rightarrow> r | None \<Rightarrow> 2000)"
    by (simp add: getEffectiveRange_def DEFAULT_VISUALIZATION_RANGE_def split: option.splits)
  have c: "\<exists>this' sm. createShadowMap this scene False = Inr this'
               \<and> ss_viewShadowMap this' = Some sm
               \<and> cam_frustum (sm_lightCamera sm) = snd (createFrustum this (getEffectiveRange this))"
    if "ss_viewShadowMap this = None" "\<not> sc_shadowMapThrows scene"
  proof -
    obtain this' where n: "createShadowMap this scene False = Inr this'"
      using createShadowMap_Inr by blast
    show ?thesis using createShadowMap_new(2)[OF that(1) n that(2)] n by auto
  qed
  have d: "sv_hfov (ss_sensorParameters this) = 60 \<and> sv_vfov (ss_sensorParameters this) = 40 \<longrightarrow>
            158 / 100 < tan (toRadians (sv_hfov (ss_sensorParameters this) / 2))
                        / tan (toRadians (sv_vfov (ss_sensorParameters this) / 2))
          \<and> tan (toRadians (sv_hfov (ss_sensorParameters this) / 2))
                        / tan (toRadians (sv_vfov (ss_sensorParameters this) / 2)) < 159 / 100"
    using aspect_60_40_bounds by (simp add: toRadians_30 toRadians_20)
  show ?thesis using a b c d by blast
qed

text \<open>Witness of C3: the 60 by 40 degree sensor with range 150.\<close>

theorem shadowCamera_frustum_witness:
  "fst (createFrustum (initializeProperties 0 options60) 150)
     = Finite (tan (toRadians 30) / tan (toRadians 20))
   \<and> fov (snd (createFrustum (initializeProperties 0 options60) 150)) = toRadians 40
   \<and> near (snd (createFrustum (initializeProperties 0 options60) 150)) = 5
   \<and> far (snd (createFrustum (initializeProperties 0 options60) 150)) = 150
   \<and> 158 / 100 < tan (toRadians 30) / tan (toRadians 20)
   \<and> tan (toRadians 30) / tan (toRadians 20) < 159 / 100
   \<and> (\<exists>this' sm. createShadowMap (initializeProperties 0 options60) scene0 False = Inr this'
         \<and> ss_viewShadowMap this' = Some sm
         \<and> far (cam_frustum (sm_lightCamera sm)) = 150)"
proof -
  have h: "0 < sv_hfov (ss_sensorParameters (initializeProperties 0 options60))"
          "sv_hfov (ss_sensorParameters (initializeProperties 0 options60)) < 180"
          "0 < sv_vfov (ss_sensorParameters (initializeProperties 0 options60))"
          "sv_vfov (ss_sensorParameters (initializeProperties 0 options60)) < 180"
    by (simp_all add: initializeProperties_def options60_def)
  have g: "getEffectiveRange (initializeProperties 0 options60) = 150"
    by (simp add: getEffectiveRange_def initializeProperties_def options60_def)
  have s: "sv_hfov (ss_sensorParameters (initializeProperties 0 options60)) = 60"
          "sv_vfov (ss_sensorParameters (initializeProperties 0 options60)) = 40"
          "ss_viewShadowMap (initializeProperties 0 options60) = None"
          "\<not> sc_shadowMapThrows scene0"
    by (simp_all add: initializeProperties_def options60_def scene0_def)
  show ?thesis
    using shadowCamera_frustum[OF h, of scene0] g s
    by (auto simp: createFrustum_far)
qed

text \<open>
  Counterexample to C3 as stated: for \<open>hfov = 60\<close> and \<open>vfov = 40\<close> the aspect ratio the code
  computes is greater than 1.58, so it is not 1.428 to any of the three decimals given.
\<close>

theorem aspect_60_40_not_1428:
  "js_gt (fst (createFrustum (initializeProperties 0 options60) 150)) (158 / 100)"
proof -
  have "tan (pi / 9) \<noteq> 0" using tan_half_fov_pos[of 40] by (simp add: toRadians_20)
  then show ?thesis
    using aspect_60_40_bounds
    by (simp add: createFrustum_def initializeProperties_def options60_def js_div_def js_gt_def
          Let_def toRadians_30 toRadians_20)
qed

section \<open>The default range of SensorShadowArea\<close>

text \<open>
  C10. SensorShadowArea always hands SensorShadow a numeric range: the given one, or 1000
  when it is undefined. The constructor returns an instance whose range is that number, so
  the null-range default of 2000 is never taken. For an undefined range the effective
  range and the getter \<open>distance\<close> are 1000, the created shadow map (when the library
  creates one) has far plane 1000 and maximum distance 1000, and they remain 1000 after
  every update.
\<close>

theorem SensorShadowArea_default_range:
  "\<exists>cfg this scene'.
      sensorConfig (cameraPosition point) (memoizedCurrentViewSensorInfo (Some info)) = Some cfg
    \<and> new_SensorShadow scene cfg = Inr (this, scene')
    \<and> sv_range (ss_sensorParameters this)
        = Some (case cv_range info of None \<Rightarrow> DEFAULT_RANGE | Some r \<Rightarrow> r)
    \<and> (cv_range info = None \<longrightarrow>
         getEffectiveRange this = 1000 \<and> distance this = 1000
         \<and> getEffectiveRange this \<noteq> DEFAULT_VISUALIZATION_RANGE
         \<and> (sc_shadowMapThrows scene \<longrightarrow> ss_viewShadowMap this = None)
         \<and> (\<not> sc_shadowMapThrows scene \<longrightarrow>
              (\<exists>sm. ss_viewShadowMap this = Some sm
                 \<and> far (cam_frustum (sm_lightCamera sm)) = 1000
                 \<and> sm_maximumDistance sm = 1000))
         \<and> (\<forall>fs. \<exists>this2 fs2. update (this, scene') fs = Inr ((this2, scene'), fs2)
                \<and> getEffectiveRange this2 = 1000
                \<and> (\<forall>sm. ss_viewShadowMap this2 = Some sm \<longrightarrow>
                      far (cam_frustum (sm_lightCamera sm)) = 1000
                      \<and> sm_maximumDistance sm = 1000)))"
proof -
  define cfg where "cfg = \<lparr> opt_cameraPosition = cameraPosition point, opt_size = None,
              opt_sensorParameters =
                Some \<lparr> sv_azimuth = cv_azimuth info,
                       sv_elevation = - cv_elevation info,
                       sv_hfov = cv_hfov info,
                       sv_range = Some (case cv_range info of None \<Rightarrow> DEFAULT_RANGE | Some r \<Rightarrow> r),
                       sv_vfov = cv_vfov info \<rparr> \<rparr>"
  have c: "sensorConfig (cameraPosition point) (memoizedCurrentViewSensorInfo (Some info)) = Some cfg"
    by (simp add: sensorConfig_def memoizedCurrentViewSensorInfo_def cfg_def)
  obtain this scene' where n: "new_SensorShadow scene cfg = Inr (this, scene')"
    using new_SensorShadow_Inr by blast
  note p = new_SensorShadow_props[OF n]
  have r: "sv_range (ss_sensorParameters this)
        = Some (case cv_range info of None \<Rightarrow> DEFAULT_RANGE | Some r \<Rightarrow> r)"
    by (simp add: p(1) cfg_def)
  have u: "\<exists>this2 fs2. update (this, scene') fs = Inr ((this2, scene'), fs2)
                \<and> getEffectiveRange this2 = getEffectiveRange this
                \<and> (\<forall>sm. ss_viewShadowMap this2 = Some sm \<longrightarrow>
                      far (cam_frustum (sm_lightCamera sm)) = getEffectiveRange this
                      \<and> sm_maximumDistance sm = getEffectiveRange this)" for fs
  proof -
    obtain this2 fs2 where u2: "update (this, scene') fs = Inr ((this2, scene'), fs2)"
      and c2: "createShadowMap this scene' True = Inr this2"
      using update_live[of "(this, scene')" fs] p(3) by auto
    have "\<forall>sm. ss_viewShadowMap this2 = Some sm \<longrightarrow>
                      far (cam_frustum (sm_lightCamera sm)) = getEffectiveRange this
                      \<and> sm_maximumDistance sm = getEffectiveRange this"
      using createShadowMap_update[OF c2] by (cases "ss_viewShadowMap this") auto
    then show ?thesis using u2 createShadowMap_frame(6)[OF c2] by simp
  qed
  have e: "cv_range info = None \<Longrightarrow> getEffectiveRange this = 1000"
    by (simp add: getEffectiveRange_def r DEFAULT_RANGE_def)
  show ?thesis
    apply (rule exI[of _ cfg], rule exI[of _ this], rule exI[of _ scene'])
    using c n r p(5,6) u e
    by (auto simp: distance_def DEFAULT_VISUALIZATION_RANGE_def createFrustum_far)
qed

text \<open>Witness of C10: a sensor view with an undefined range, in the empty scene.\<close>

theorem SensorShadowArea_default_range_witness:
  "\<exists>this scene'.
      new_SensorShadow scene0
        \<lparr> opt_cameraPosition = \<lparr> ci_lat = 0, ci_lon = 0, ci_hae = 0 \<rparr>, opt_size = None,
          opt_sensorParameters =
            Some \<lparr> sv_azimuth = 0, sv_elevation = 45, sv_hfov = 60, sv_range = Some 1000,
                   sv_vfov = 40 \<rparr> \<rparr>
        = Inr (this, scene')
    \<and> getEffectiveRange this = 1000
    \<and> (\<exists>sm. ss_viewShadowMap this = Some sm
          \<and> far (cam_frustum (sm_lightCamera sm)) = 1000 \<and> sm_maximumDistance sm = 1000)"
  using SensorShadowArea_default_range
          [of "\<lparr> ci_lat = 0, ci_lon = 0, ci_hae = 0 \<rparr>"
              "\<lparr> cv_hfov = 60, cv_vfov = 40, cv_range = None, cv_azimuth = 0,
                 cv_elevation = - 45 \<rparr>"
              scene0]
  by (simp add: sensorConfig_def memoizedCurrentViewSensorInfo_def cameraPosition_def scene0_def
        DEFAULT_RANGE_def) blast

section \<open>Invalid fields of view\<close>

lemma isValidAngle_iff:
  "isValidAngle a = (case a of Finite r \<Rightarrow> 0 < r \<and> r < 180 | _ \<Rightarrow> False)"
  by (cases a) (auto simp: isValidAngle_def js_gt_def js_lt_def)

text \<open>
  C5, as the code has it for FrustumVisualizer. When the horizontal or the vertical field
  of view is not a finite number strictly between 0 and 180, and in particular when
  \<open>vfov = 0\<close>, the frustum memo of FrustumVisualizer is null and the component renders
  nothing; the function returns, nothing is thrown.
\<close>

theorem FrustumVisualizer_invalid_fov:
  assumes "\<not> isValidAngle hfov_deg \<or> \<not> isValidAngle vfov_deg"
  shows "FrustumVisualizer_frustum hfov_deg vfov_deg (FrustumVisualizer_range range_prop)
           (FrustumVisualizer_isInputValid hfov_deg vfov_deg (FrustumVisualizer_range range_prop)
              azimuth elevation point) = None
       \<and> FrustumVisualizer point azimuth elevation hfov_deg vfov_deg range_prop isDeviceSelected = None
       \<and> \<not> isValidAngle (Finite 0) \<and> \<not> isValidAngle (Finite 180)
       \<and> \<not> isValidAngle NaN \<and> \<not> isValidAngle PosInfinity \<and> \<not> isValidAngle NegInfinity
       \<and> (\<forall>r. isValidAngle (Finite r) = (0 < r \<and> r < 180))"
  using assms
  by (auto simp: FrustumVisualizer_def FrustumVisualizer_frustum_def FrustumVisualizer_isInputValid_def
        isValidAngle_iff Let_def)

text \<open>Witness of C5: a vertical field of view of 0, and a horizontal one that is not a
  number.\<close>

theorem FrustumVisualizer_invalid_fov_witness:
  "FrustumVisualizer_frustum (Finite 60) (Finite 0) (FrustumVisualizer_range None)
     (FrustumVisualizer_isInputValid (Finite 60) (Finite 0) (FrustumVisualizer_range None)
        0 (- 45) \<lparr>lat = 0, lon = 0, hae = None\<rparr>) = None
   \<and> FrustumVisualizer \<lparr>lat = 0, lon = 0, hae = None\<rparr> 0 (- 45) (Finite 60) (Finite 0) None True = None
   \<and> FrustumVisualizer \<lparr>lat = 0, lon = 0, hae = None\<rparr> 0 (- 45) NaN (Finite 40) None True = None"
proof -
  have a: "\<not> isValidAngle (Finite 60) \<or> \<not> isValidAngle (Finite 0)"
    by (simp add: isValidAngle_iff)
  have b: "\<not> isValidAngle NaN \<or> \<not> isValidAngle (Finite 40)"
    by (simp add: isValidAngle_iff)
  show ?thesis
    using FrustumVisualizer_invalid_fov
            [OF a, of None 0 "- 45" "\<lparr>lat = 0, lon = 0, hae = None\<rparr>" True]
          FrustumVisualizer_invalid_fov
            [OF b, of None 0 "- 45" "\<lparr>lat = 0, lon = 0, hae = None\<rparr>" True]
    by simp
qed

text \<open>
  Counterexample to C5 as stated: with \<open>vfov = 0\<close> the constructor of SensorShadow returns an
  instance with a shadow map whose camera has a frustum, of field of view 0 and infinite
  aspect ratio; the construction does not yield null.
\<close>

theorem shadow_frustum_vfov0:
  "\<not> isl (new_SensorShadow scene0 options_vfov0)
   \<and> map_option (\<lambda>sm. cam_frustum (sm_lightCamera sm))
        (ss_viewShadowMap (fst (projr (new_SensorShadow scene0 options_vfov0))))
     = Some \<lparr> fov = 0, aspectRatio = PosInfinity, near = 5, far = 150 \<rparr>"
proof -
  obtain this scene' where n: "new_SensorShadow scene0 options_vfov0 = Inr (this, scene')"
    using new_SensorShadow_Inr by blast
  note p = new_SensorShadow_props[OF n]
  have sp: "ss_sensorParameters this
              = \<lparr> sv_azimuth = 0, sv_elevation = 45, sv_hfov = 60, sv_range = Some 150,
                  sv_vfov = 0 \<rparr>"
    by (simp add: p(1) options_vfov0_def)
  have "\<not> sc_shadowMapThrows scene0" by (simp add: scene0_def)
  from p(6)[OF this] obtain sm where sm: "ss_viewShadowMap this = Some sm"
    "cam_frustum (sm_lightCamera sm) = snd (createFrustum this (getEffectiveRange this))"
    by blast
  have "snd (createFrustum this (getEffectiveRange this))
          = \<lparr> fov = 0, aspectRatio = PosInfinity, near = 5, far = 150 \<rparr>"
    using tan_30_pos
    by (simp add: createFrustum_def getEffectiveRange_def sp Let_def js_div_def
          DEFAULT_NEAR_PLANE_def toRadians_def)
  then show ?thesis by (simp add: n sm)
qed

section \<open>Destruction\<close>

text \<open>
  C6, as the code has it. \<open>destroy\<close> is idempotent. It removes the pre-update listener and
  the post-process stage the instance holds, takes the instance out of the scene's
  primitives and marks it destroyed; it leaves the field \<open>viewShadowMap\<close> as it is. After
  \<open>destroy\<close>, \<open>update\<close> changes neither the instance nor the scene nor the frame state, and
  a destroyed instance stays destroyed under both operations.
\<close>

theorem destroy_idempotent_terminal:
  "destroy (destroy w) = destroy w
   \<and> ss_isDestroyed (fst (destroy w))
   \<and> isDestroyed (fst (destroy w))
   \<and> ss_preUpdateListener (fst (destroy w)) = None
   \<and> ss_postProcess (fst (destroy w)) = None
   \<and> (\<forall>l. ss_preUpdateListener (fst w) = Some l \<longrightarrow> l \<notin> sc_preUpdate (snd (destroy w)))
   \<and> (\<forall>s. ss_postProcess (fst w) = Some s \<longrightarrow> s \<notin> sc_postProcessStages (snd (destroy w)))
   \<and> ss_id (fst w) \<notin> sc_primitives (snd (destroy w))
   \<and> ss_viewShadowMap (fst (destroy w)) = ss_viewShadowMap (fst w)
   \<and> update (destroy w) shadowMaps = Inr (destroy w, shadowMaps)
   \<and> (ss_isDestroyed (fst w) \<longrightarrow>
         update w shadowMaps = Inr (w, shadowMaps) \<and> ss_isDestroyed (fst (destroy w)))"
  by (cases w)
     (auto simp: destroy_def update_def isDestroyed_def Let_def split: option.splits prod.splits)

text \<open>Witness of C6: an instance constructed in the empty scene, destroyed once and twice,
  then updated.\<close>

theorem destroy_idempotent_terminal_witness:
  "map_prod (\<lambda>t. (ss_isDestroyed t, ss_preUpdateListener t, ss_postProcess t))
            (\<lambda>s. (sc_preUpdate s, sc_postProcessStages s, sc_primitives s))
     (projr (new_SensorShadow scene0 options60))
     = ((False, Some 0, Some 0), ({0}, {0}, {0}))
   \<and> map_prod (\<lambda>t. (ss_isDestroyed t, ss_preUpdateListener t, ss_postProcess t))
            (\<lambda>s. (sc_preUpdate s, sc_postProcessStages s, sc_primitives s))
     (destroy (projr (new_SensorShadow scene0 options60)))
     = ((True, None, None), ({}, {}, {}))
   \<and> destroy (destroy (projr (new_SensorShadow scene0 options60)))
       = destroy (projr (new_SensorShadow scene0 options60))
   \<and> update (destroy (projr (new_SensorShadow scene0 options60))) []
       = Inr (destroy (projr (new_SensorShadow scene0 options60)), [])"
proof -
  have a: "map_prod (\<lambda>t. (ss_isDestroyed t, ss_preUpdateListener t, ss_postProcess t))
            (\<lambda>s. (sc_preUpdate s, sc_postProcessStages s, sc_primitives s))
     (projr (new_SensorShadow scene0 options60))
     = ((False, Some 0, Some 0), ({0}, {0}, {0}))"
    by (simp add: shadow_eval split: prod.splits)
  have b: "map_prod (\<lambda>t. (ss_isDestroyed t, ss_preUpdateListener t, ss_postProcess t))
            (\<lambda>s. (sc_preUpdate s, sc_postProcessStages s, sc_primitives s))
     (destroy (projr (new_SensorShadow scene0 options60)))
     = ((True, None, None), ({}, {}, {}))"
    by (simp add: shadow_eval split: prod.splits)
  show ?thesis
    using destroy_idempotent_terminal[of "projr (new_SensorShadow scene0 options60)" "[]"] a b
    by simp
qed

text \<open>
  Counterexample to C6 as stated: after \<open>destroy\<close> the instance still holds the shadow map
  it was constructed with; the resource is not released.
\<close>

theorem destroy_keeps_shadow_map:
  "\<not> isl (new_SensorShadow scene0 options60)
   \<and> ss_viewShadowMap (fst (destroy (projr (new_SensorShadow scene0 options60)))) \<noteq> None
   \<and> ss_viewShadowMap (fst (destroy (projr (new_SensorShadow scene0 options60))))
       = ss_viewShadowMap (fst (projr (new_SensorShadow scene0 options60)))"
  by (simp add: shadow_eval split: prod.splits)

section \<open>The distance gate\<close>

lemma render_same_deps:
  "SensorShadowArea_render (Some (deps, c)) deps surfaceDistance cameraHeight st
     = (Some (deps, c), st)"
  by (simp add: SensorShadowArea_render_def Let_def)

lemma render_mount_deps60:
  "SensorShadowArea_render None deps60 100 0 (None, scene0)
   = (Some (deps60, True),
      createDestroyEffect True True (Some ''void main() {}'') (Some options60) None
        100 0 \<lparr> ci_lat = 0, ci_lon = 0, ci_hae = 0 \<rparr> (None, scene0))"
  by (simp add: SensorShadowArea_render_def deps60_def Let_def
        createDestroyEffect_returnsCleanup_def truthy_def MAX_CAMERA_DISTANCE_def)

text \<open>
  C7, as the code has it. Whenever the create/destroy effect runs with a combined distance,
  the square root of the squared surface distance plus the squared height difference,
  greater than \<open>MAX_CAMERA_DISTANCE = 2000\<close>, it does what \<open>cleanupSensorShadow\<close> does and
  nothing else: an existing shadow camera is destroyed, the reference is null afterwards,
  and no shadow camera is created. The effect runs after the first render and after a
  render in which one of its dependencies changed; after either, at such a distance, the
  reference is null.
\<close>

theorem distance_gate:
  assumes "sqrt (surfaceDistance ^ 2 + (cameraHeight - ci_hae point) ^ 2) > MAX_CAMERA_DISTANCE"
  shows "createDestroyEffect isDeviceSelected viewer fsShader config shaderError
           surfaceDistance cameraHeight point st = cleanupSensorShadow st
       \<and> fst (cleanupSensorShadow st) = None
       \<and> (\<forall>this. fst st = Some this \<longrightarrow>
            snd (cleanupSensorShadow st) = snd (destroy (this, snd st)))
       \<and> (fst st = None \<longrightarrow> cleanupSensorShadow st = st)
       \<and> MAX_CAMERA_DISTANCE = 2000
       \<and> snd (SensorShadowArea_render None
                \<lparr> dep_viewer = viewer, dep_fsShader = fsShader, dep_sensorConfig = config,
                  dep_shaderError = shaderError, dep_isDeviceSelected = isDeviceSelected,
                  dep_point = point \<rparr> surfaceDistance cameraHeight st)
           = cleanupSensorShadow st
       \<and> (old \<noteq> \<lparr> dep_viewer = viewer, dep_fsShader = fsShader, dep_sensorConfig = config,
                    dep_shaderError = shaderError, dep_isDeviceSelected = isDeviceSelected,
                    dep_point = point \<rparr> \<longrightarrow>
            fst (snd (SensorShadowArea_render (Some (old, hasCleanup))
                \<lparr> dep_viewer = viewer, dep_fsShader = fsShader, dep_sensorConfig = config,
                  dep_shaderError = shaderError, dep_isDeviceSelected = isDeviceSelected,
                  dep_point = point \<rparr> surfaceDistance cameraHeight st)) = None)"
proof -
  have e: "createDestroyEffect isDeviceSelected viewer fsShader config shaderError
           surfaceDistance cameraHeight point s = cleanupSensorShadow s" for s
    using assms by (simp add: createDestroyEffect_def Let_def)
  have n: "fst (cleanupSensorShadow s) = None" for s :: "SensorShadow option \<times> Scene"
    by (simp add: cleanupSensorShadow_def split: option.splits)
  have d: "\<forall>this. fst st = Some this \<longrightarrow>
            snd (cleanupSensorShadow st) = snd (destroy (this, snd st))"
    by (simp add: cleanupSensorShadow_def)
  have i: "fst st = None \<longrightarrow> cleanupSensorShadow st = st"
    by (simp add: cleanupSensorShadow_def)
  show ?thesis
    using e n d i by (simp add: SensorShadowArea_render_def Let_def MAX_CAMERA_DISTANCE_def)
qed

text \<open>
  Witness of C7: the effect creates a shadow camera at 100 m; run again at 2001 m it tears
  the camera down, and nothing of it is left in the scene. So does the render at 2001 m in
  which the sensor's field of view has changed.
\<close>

theorem distance_gate_witness:
  "map_prod (map_option ss_id) sc_primitives
     (createDestroyEffect True True (Some ''void main() {}'') (Some options60) None
        100 0 \<lparr> ci_lat = 0, ci_lon = 0, ci_hae = 0 \<rparr> (None, scene0))
     = (Some 0, {0})
   \<and> sqrt (2001 ^ 2 + (0 - ci_hae \<lparr> ci_lat = 0, ci_lon = 0, ci_hae = 0 \<rparr>) ^ 2) = 2001
   \<and> map_prod (map_option ss_id) (\<lambda>s. (sc_preUpdate s, sc_postProcessStages s, sc_primitives s))
       (createDestroyEffect True True (Some ''void main() {}'') (Some options60) None
          2001 0 \<lparr> ci_lat = 0, ci_lon = 0, ci_hae = 0 \<rparr>
          (createDestroyEffect True True (Some ''void main() {}'') (Some options60) None
             100 0 \<lparr> ci_lat = 0, ci_lon = 0, ci_hae = 0 \<rparr> (None, scene0)))
     = (None, {}, {}, {})
   \<and> deps60 \<noteq> deps_vfov0
   \<and> fst (snd (SensorShadowArea_render (Some (deps60, True)) deps_vfov0 2001 0
                 (snd (SensorShadowArea_render None deps60 100 0 (None, scene0))))) = None"
proof -
  define st1 where "st1 = createDestroyEffect True True (Some ''void main() {}'') (Some options60)
                            None 100 0 \<lparr> ci_lat = 0, ci_lon = 0, ci_hae = 0 \<rparr> (None, scene0)"
  have a: "map_prod (map_option ss_id) sc_primitives st1 = (Some 0, {0})"
    unfolding st1_def by (simp add: shadow_eval split: prod.splits)
  have d: "sqrt (2001 ^ 2 + (0 - ci_hae \<lparr> ci_lat = 0, ci_lon = 0, ci_hae = 0 \<rparr>) ^ 2) = (2001::real)"
    by simp
  then have g: "sqrt (2001 ^ 2 + (0 - ci_hae \<lparr> ci_lat = 0, ci_lon = 0, ci_hae = 0 \<rparr>) ^ 2)
                  > MAX_CAMERA_DISTANCE"
    by (simp add: MAX_CAMERA_DISTANCE_def)
  have c: "map_prod (map_option ss_id)
             (\<lambda>s. (sc_preUpdate s, sc_postProcessStages s, sc_primitives s))
             (cleanupSensorShadow st1) = (None, {}, {}, {})"
    unfolding st1_def by (simp add: shadow_eval split: prod.splits)
  have ne: "deps60 \<noteq> deps_vfov0"
    by (simp add: deps60_def deps_vfov0_def options60_def options_vfov0_def)
  have m: "snd (SensorShadowArea_render None deps60 100 0 (None, scene0)) = st1"
    by (simp add: render_mount_deps60 st1_def)
  have "createDestroyEffect True True (Some ''void main() {}'') (Some options60) None
          2001 0 \<lparr> ci_lat = 0, ci_lon = 0, ci_hae = 0 \<rparr> st1 = cleanupSensorShadow st1"
    using distance_gate[OF g, of True True "Some ''void main() {}''" "Some options60" None st1]
    by simp
  moreover have "fst (snd (SensorShadowArea_render (Some (deps60, True)) deps_vfov0 2001 0 st1))
                   = None"
    using distance_gate[OF g, of True True "Some ''void main() {}''" "Some options_vfov0" None
            st1 deps60 True] ne
    by (simp add: deps_vfov0_def)
  ultimately show ?thesis
    using a c d ne unfolding m unfolding st1_def by simp
qed

text \<open>
  Counterexample to C7 as stated: a shadow camera is created while the viewing camera is
  100 m from the sensor, and the viewing camera then moves to 2001 m. No dependency of the
  effect has changed, so the render at 2001 m does nothing; the frame's \<open>update\<close>, which has
  no distance test, keeps the instance live, with its shadow map and among the scene's
  primitives. Beyond the maximum distance the shadow camera exists and is not torn down.
\<close>

theorem camera_moved_beyond_gate:
  "map_prod id (map_prod (map_option ss_id) sc_primitives)
     (SensorShadowArea_render None deps60 100 0 (None, scene0))
     = (Some (deps60, True), Some 0, {0})
   \<and> sqrt (2001 ^ 2 + (0 - ci_hae (dep_point deps60)) ^ 2) > MAX_CAMERA_DISTANCE
   \<and> SensorShadowArea_render (Some (deps60, True)) deps60 2001 0
       (snd (SensorShadowArea_render None deps60 100 0 (None, scene0)))
     = (Some (deps60, True), snd (SensorShadowArea_render None deps60 100 0 (None, scene0)))
   \<and> (case snd (SensorShadowArea_render None deps60 100 0 (None, scene0)) of
         (None, scene) \<Rightarrow> False
       | (Some this, scene) \<Rightarrow>
           (case update (this, scene) [] of
              Inl e \<Rightarrow> False
            | Inr ((this', scene'), shadowMaps) \<Rightarrow>
                \<not> isDestroyed this' \<and> ss_id this' \<in> sc_primitives scene'
                \<and> ss_viewShadowMap this' \<noteq> None \<and> shadowMaps = [ss_viewShadowMap this']))"
proof -
  define st1 where "st1 = createDestroyEffect True True (Some ''void main() {}'') (Some options60)
                            None 100 0 \<lparr> ci_lat = 0, ci_lon = 0, ci_hae = 0 \<rparr> (None, scene0)"
  have m: "SensorShadowArea_render None deps60 100 0 (None, scene0) = (Some (deps60, True), st1)"
    by (simp add: render_mount_deps60 st1_def)
  have a: "map_prod (map_option ss_id) sc_primitives st1 = (Some 0, {0})"
    unfolding st1_def by (simp add: shadow_eval split: prod.splits)
  have g: "sqrt (2001 ^ 2 + (0 - ci_hae (dep_point deps60)) ^ 2) > MAX_CAMERA_DISTANCE"
    by (simp add: deps60_def MAX_CAMERA_DISTANCE_def)
  have u: "(case st1 of
         (None, scene) \<Rightarrow> False
       | (Some this, scene) \<Rightarrow>
           (case update (this, scene) [] of
              Inl e \<Rightarrow> False
            | Inr ((this', scene'), shadowMaps) \<Rightarrow>
                \<not> isDestroyed this' \<and> ss_id this' \<in> sc_primitives scene'
                \<and> ss_viewShadowMap this' \<noteq> None \<and> shadowMaps = [ss_viewShadowMap this']))"
    unfolding st1_def
    by (simp add: shadow_eval update_def isDestroyed_def updateExistingShadowMap_def
          split: prod.splits)
  show ?thesis
    using a g u by (simp add: m render_same_deps)
qed

end
